theory Spec2Isabelle
  imports Complex_Main
begin

section \<open>Samples and the bounded history buffer\<close>

text \<open>
  A sample is the pair \<open>(timestamp, price)\<close> that both clients append to their history
  buffer. Python floats are idealised as reals: rounding, \<open>nan\<close> and \<open>inf\<close> are outside
  the model.
\<close>

type_synonym sample = "real \<times> real"

text \<open>
  \<open>collections.deque(maxlen=N).append(x)\<close>: the item is added on the right and, when the
  deque then holds more than \<open>N\<close> items, one item is discarded from the left. A negative
  \<open>maxlen\<close> is refused by the constructor, so the capacity is a natural number.
\<close>

definition deque_append :: "nat \<Rightarrow> 'a list \<Rightarrow> 'a \<Rightarrow> 'a list" where
  "deque_append maxlen d x = (let d' = d @ [x] in if maxlen < length d' then tl d' else d')"

text \<open>The exceptions of Python and of the websockets library that the code can meet.\<close>

datatype py_exc =
    JSONDecodeError
  | KeyError
  | ValueError
  | TypeError
  | OverflowError
  | RecursionError
  | ZeroDivisionError
  | ConnectionClosedError
  | OSError

section \<open>PriceStream (ws\_client.py): the object and its foreground methods\<close>

datatype loop_state = Loop_open | Loop_closed

datatype callback = Set_stop_event | Cleanup

text \<open>
  The fields of \<open>PriceStream\<close>. A thread handle is the index of the thread in
  \<open>threads_started\<close>, the log of \<open>Thread.start()\<close> calls with the symbol each thread was
  given; \<open>scheduled\<close> logs the coroutines that \<open>stop\<close> hands to the background loop with
  \<open>run_coroutine_threadsafe\<close>. An open transport is named by the symbol it was opened for.
  \<open>stop_event\<close> is \<open>None\<close> for no event object and \<open>Some b\<close> for an event whose
  \<open>is_set()\<close> is \<open>b\<close>. Logging and the module-level dictionary of pending session updates
  are not modelled.
\<close>

record price_stream =
  max_points :: nat
  price_data :: "sample list"
  current_symbol :: "string option"
  websocket :: "string option"
  running :: bool
  loop :: "loop_state option"
  thread :: "nat option"
  connection_task :: "nat option"
  stop_event :: "bool option"
  threads_started :: "string list"
  scheduled :: "callback list"

definition PriceStream_init :: "nat \<Rightarrow> price_stream" where
  "PriceStream_init n =
     \<lparr> max_points = n, price_data = [], current_symbol = None, websocket = None,
       running = False, loop = None, thread = None, connection_task = None,
       stop_event = None, threads_started = [], scheduled = [] \<rparr>"

text \<open>\<open>self._stop_event and self._stop_event.is_set()\<close>\<close>

definition stop_is_set :: "price_stream \<Rightarrow> bool" where
  "stop_is_set st = (stop_event st = Some True)"

text \<open>\<open>self.loop and not self.loop.is_closed()\<close>\<close>

definition loop_usable :: "price_stream \<Rightarrow> bool" where
  "loop_usable st = (loop st = Some Loop_open)"

definition schedule :: "callback \<Rightarrow> price_stream \<Rightarrow> price_stream" where
  "schedule cb st = st\<lparr>scheduled := scheduled st @ [cb]\<rparr>"

text \<open>
  \<open>PriceStream.stop\<close>: returns at once when not running; otherwise clears \<open>running\<close>,
  schedules the stop signal and the cleanup on the background loop (without waiting for
  either), and resets \<open>current_symbol\<close>, \<open>websocket\<close> and \<open>connection_task\<close>. It does not
  touch \<open>price_data\<close>.
\<close>

definition ps_stop :: "price_stream \<Rightarrow> price_stream" where
  "ps_stop st =
     (if \<not> running st then st
      else
        let st1 = st\<lparr>running := False\<rparr>;
            st2 = (if loop_usable st1 \<and> stop_event st1 \<noteq> None
                   then schedule Set_stop_event st1 else st1);
            st3 = (if loop_usable st2 then schedule Cleanup st2 else st2)
        in st3\<lparr>current_symbol := None, websocket := None, connection_task := None\<rparr>)"

text \<open>
  \<open>PriceStream.start\<close>: the guard compares the stored symbol with the argument as given
  (Python \<open>==\<close> on strings). Otherwise the old session is stopped, the residual handles
  are cleared, the new symbol is stored, the buffer is cleared and a new thread is
  started with the symbol as its argument. The bounded \<open>join\<close> on the old thread changes
  no field.
\<close>

definition ps_start :: "price_stream \<Rightarrow> string \<Rightarrow> price_stream" where
  "ps_start st symb =
     (if running st \<and> current_symbol st = Some symb then st
      else
        let st1 = ps_stop st;
            st2 = st1\<lparr>thread := None, connection_task := None, websocket := None\<rparr>;
            st3 = st2\<lparr>current_symbol := Some symb, running := True, price_data := []\<rparr>
        in st3\<lparr>thread := Some (length (threads_started st3)),
               threads_started := threads_started st3 @ [symb]\<rparr>)"

definition ps_get_series :: "price_stream \<Rightarrow> real list \<times> real list" where
  "ps_get_series st =
     (if price_data st = [] then ([], [])
      else (map fst (price_data st), map snd (price_data st)))"

definition ps_get_latest_price :: "price_stream \<Rightarrow> real option" where
  "ps_get_latest_price st =
     (if price_data st = [] then None else Some (snd (last (price_data st))))"

text \<open>
  The loop of \<open>get_price_change\<close> over \<open>reversed(self.price_data)\<close>: the first sample
  (newest first) with \<open>current_time - timestamp >= window_seconds\<close> is the reference;
  the float division raises \<open>ZeroDivisionError\<close> when its price is zero.
\<close>

fun scan_back :: "real \<Rightarrow> real \<Rightarrow> real \<Rightarrow> sample list \<Rightarrow> py_exc + real option" where
  "scan_back now w cur [] = Inr None"
| "scan_back now w cur ((t, p) # rest) =
     (if now - t \<ge> w
      then (if p = 0 then Inl ZeroDivisionError else Inr (Some (((cur - p) / p) * 100)))
      else scan_back now w cur rest)"

text \<open>
  \<open>get_price_change(window_seconds)\<close>, with the value of \<open>time.time()\<close> at the call as the
  parameter \<open>now\<close>.
\<close>

definition ps_get_price_change :: "real \<Rightarrow> real \<Rightarrow> price_stream \<Rightarrow> py_exc + real option" where
  "ps_get_price_change now w st =
     (if length (price_data st) < 2 then Inr None
      else scan_back now w (snd (last (price_data st))) (rev (price_data st)))"

section \<open>Inbound frames\<close>

text \<open>
  The value that \<open>json.loads\<close> returns for a frame. An object is the association list of
  the resulting dictionary.
\<close>

datatype json =
    JNull
  | JBool bool
  | JInt int
  | JFloat real
  | JStr string
  | JArr "json list"
  | JObj "(string \<times> json) list"

text \<open>
  A frame, by what \<open>json.loads\<close> does with it: text that is not JSON, rejected with
  \<open>JSONDecodeError\<close> (a binary frame that is not UTF-8 is rejected with
  \<open>UnicodeDecodeError\<close>; both are \<open>ValueError\<close>s and are handled alike); JSON nested too
  deeply for the decoder, which raises \<open>RecursionError\<close>; or the JSON value returned.
\<close>

datatype message = Not_json | Too_deep | Json json

text \<open>
  \<open>data[key]\<close> with a string key: a dictionary raises \<open>KeyError\<close> for a missing key, and
  every other JSON value raises \<open>TypeError\<close> (a list or a string wants an integer index;
  numbers, booleans and \<open>None\<close> are not subscriptable).
\<close>

fun py_getitem :: "json \<Rightarrow> string \<Rightarrow> py_exc + json" where
  "py_getitem (JObj kvs) k = (case map_of kvs k of None \<Rightarrow> Inl KeyError | Some v \<Rightarrow> Inr v)"
| "py_getitem _ k = Inl TypeError"

text \<open>
  The integers a double can hold: the conversion of an integer rounds to the nearest
  double and raises \<open>OverflowError\<close> when that is beyond the largest one, that is, from
  \<open>2 ^ 1024 - 2 ^ 970\<close> on in absolute value.
\<close>

definition float_overflow :: int where
  "float_overflow = 2 ^ 1024 - 2 ^ 970"

text \<open>
  \<open>float(v)\<close>. The conversion of a string is Python's own parser, a parameter \<open>pf\<close> of the
  model: \<open>pf s = None\<close> when \<open>float(s)\<close> raises \<open>ValueError\<close>. An integer out of the
  range of a double raises \<open>OverflowError\<close>. \<open>None\<close>, lists and dictionaries raise
  \<open>TypeError\<close>; a boolean is an integer.
\<close>

fun py_float :: "(string \<Rightarrow> real option) \<Rightarrow> json \<Rightarrow> py_exc + real" where
  "py_float pf (JInt i) =
     (if \<bar>i\<bar> < float_overflow then Inr (of_int i) else Inl OverflowError)"
| "py_float pf (JFloat r) = Inr r"
| "py_float pf (JBool b) = Inr (if b then 1 else 0)"
| "py_float pf (JStr s) = (case pf s of None \<Rightarrow> Inl ValueError | Some r \<Rightarrow> Inr r)"
| "py_float pf JNull = Inl TypeError"
| "py_float pf (JArr xs) = Inl TypeError"
| "py_float pf (JObj kvs) = Inl TypeError"

text \<open>
  \<open>v / 1000\<close>: true division of a number; \<open>TypeError\<close> for every other operand. The
  quotient of an integer is rounded once, and \<open>OverflowError\<close> is raised when it is out
  of the range of a double.
\<close>

fun py_div_1000 :: "json \<Rightarrow> py_exc + real" where
  "py_div_1000 (JInt i) =
     (if \<bar>i\<bar> < 1000 * float_overflow then Inr (of_int i / 1000) else Inl OverflowError)"
| "py_div_1000 (JFloat r) = Inr (r / 1000)"
| "py_div_1000 (JBool b) = Inr ((if b then 1 else 0) / 1000)"
| "py_div_1000 JNull = Inl TypeError"
| "py_div_1000 (JStr s) = Inl TypeError"
| "py_div_1000 (JArr xs) = Inl TypeError"
| "py_div_1000 (JObj kvs) = Inl TypeError"

text \<open>
  The three statements both clients run on a frame, in the source's order:
  \<open>data = json.loads(message)\<close>, \<open>price = float(data["p"])\<close>,
  \<open>timestamp = data["T"] / 1000\<close>. The result is the sample or the exception raised.
\<close>

definition parse_trade :: "(string \<Rightarrow> real option) \<Rightarrow> message \<Rightarrow> py_exc + sample" where
  "parse_trade pf msg =
     (case msg of
        Not_json \<Rightarrow> Inl JSONDecodeError
      | Too_deep \<Rightarrow> Inl RecursionError
      | Json data \<Rightarrow>
          (case py_getitem data ''p'' of
             Inl e \<Rightarrow> Inl e
           | Inr pv \<Rightarrow>
               (case py_float pf pv of
                  Inl e \<Rightarrow> Inl e
                | Inr price \<Rightarrow>
                    (case py_getitem data ''T'' of
                       Inl e \<Rightarrow> Inl e
                     | Inr tv \<Rightarrow>
                         (case py_div_1000 tv of
                            Inl e \<Rightarrow> Inl e
                          | Inr ts \<Rightarrow> Inr (ts, price))))))"

text \<open>\<open>except (json.JSONDecodeError, KeyError, ValueError)\<close>\<close>

definition skipped_exc :: "py_exc \<Rightarrow> bool" where
  "skipped_exc e = (e = JSONDecodeError \<or> e = KeyError \<or> e = ValueError)"

section \<open>PriceStream: the background coroutine\<close>

datatype verdict = Continue | Break | Raise py_exc

text \<open>
  The body of \<open>async for message in websocket\<close> in \<open>_connect_and_stream(symbol)\<close>, on the
  fields as they are when the frame arrives: the stop check, the symbol check, then the
  parse and the append. An exception outside the three caught ones leaves the loop.
\<close>

definition ps_on_message ::
  "(string \<Rightarrow> real option) \<Rightarrow> price_stream \<Rightarrow> string \<Rightarrow> message \<Rightarrow> price_stream \<times> verdict" where
  "ps_on_message pf st symb msg =
     (if \<not> running st \<or> stop_is_set st then (st, Break)
      else if current_symbol st \<noteq> Some symb then (st, Break)
      else
        (case parse_trade pf msg of
           Inr smp \<Rightarrow>
             (st\<lparr>price_data := deque_append (max_points st) (price_data st) smp\<rparr>, Continue)
         | Inl e \<Rightarrow> if skipped_exc e then (st, Continue) else (st, Raise e)))"

text \<open>
  The receive loop over the frames one connection delivers. Within one run of a loop of
  the model no foreground call intervenes: the flags are those of the state the loop is
  run in, so a theorem about a loop holds for whatever the foreground has set by then.
\<close>

fun ps_receive ::
  "(string \<Rightarrow> real option) \<Rightarrow> price_stream \<Rightarrow> string \<Rightarrow> message list \<Rightarrow> price_stream \<times> verdict" where
  "ps_receive pf st symb [] = (st, Continue)"
| "ps_receive pf st symb (m # ms) =
     (case ps_on_message pf st symb m of
        (st', Continue) \<Rightarrow> ps_receive pf st' symb ms
      | (st', Break) \<Rightarrow> (st', Break)
      | (st', Raise e) \<Rightarrow> (st', Raise e))"

text \<open>
  What the transport does in one iteration of the reconnect loop: \<open>websockets.connect\<close>
  raises, or the connection opens, delivers frames and then ends the iteration normally
  (\<open>None\<close>) or by raising. The wait outcome says how a backoff wait of that iteration
  ends: by its timeout, or by completing (the stop event was set).
\<close>

datatype conn = Connect_fails py_exc | Connected "message list" "py_exc option"

datatype wait_outcome = Timed_out | Completed

datatype outcome = Body_done | Closed_break | Failed py_exc

datatype 'b decision = Retry 'b | Exit_loop

text \<open>
  The record of a run of a reconnect loop over a script: the fields at the end, the
  backoff waits in order, the number of \<open>websockets.connect\<close> calls, and whether the loop
  was left (\<open>False\<close>: the script ran out with the loop still going).
\<close>

record ('s, 'b) run =
  final :: 's
  waits :: "'b list"
  connects :: nat
  ended :: bool

definition still_going :: "'s \<Rightarrow> ('s, 'b) run" where
  "still_going st = \<lparr> final = st, waits = [], connects = 0, ended = False \<rparr>"

definition after_connect :: "'b list \<Rightarrow> ('s, 'b) run \<Rightarrow> ('s, 'b) run" where
  "after_connect ws r = r\<lparr> waits := ws @ waits r, connects := Suc (connects r) \<rparr>"

text \<open>
  One iteration's \<open>try\<close> body: the \<open>async with\<close> block with the inner \<open>try\<close>. A
  \<open>ConnectionClosed\<close> raised in the inner \<open>try\<close> is caught there and breaks the
  \<open>while\<close> loop; every other exception reaches \<open>except Exception\<close>. The second component
  is \<open>backoff\<close> afterwards (reset to 1 once the connection is open).
\<close>

definition ps_attempt ::
  "(string \<Rightarrow> real option) \<Rightarrow> price_stream \<Rightarrow> string \<Rightarrow> int \<Rightarrow> conn
     \<Rightarrow> price_stream \<times> int \<times> outcome" where
  "ps_attempt pf st symb backoff c =
     (case c of
        Connect_fails e \<Rightarrow> (st, backoff, Failed e)
      | Connected ms ending \<Rightarrow>
          (case ps_receive pf (st\<lparr>websocket := Some symb\<rparr>) symb ms of
             (st', Break) \<Rightarrow> (st', 1, Body_done)
           | (st', Raise e) \<Rightarrow>
               (st', 1, if e = ConnectionClosedError then Closed_break else Failed e)
           | (st', Continue) \<Rightarrow>
               (case ending of
                  None \<Rightarrow> (st', 1, Body_done)
                | Some e \<Rightarrow>
                    (st', 1, if e = ConnectionClosedError then Closed_break else Failed e))))"

text \<open>
  The \<open>except Exception\<close> handler of \<open>_connect_and_stream\<close>: the waits it performs and
  whether the loop goes on. Without an event object it sleeps and then breaks.
\<close>

definition ps_on_exception ::
  "price_stream \<Rightarrow> string \<Rightarrow> int \<Rightarrow> wait_outcome \<Rightarrow> int list \<times> int decision" where
  "ps_on_exception st symb backoff wo =
     (if running st \<and> \<not> stop_is_set st \<and> current_symbol st = Some symb
      then
        (if stop_event st = None then ([backoff], Exit_loop)
         else
           (case wo of
              Completed \<Rightarrow> ([backoff], Exit_loop)
            | Timed_out \<Rightarrow> ([backoff], Retry (min (backoff * 2) 30))))
      else ([], Exit_loop))"

definition ps_exit :: "price_stream \<Rightarrow> (price_stream, int) run" where
  "ps_exit st = \<lparr> final = st\<lparr>websocket := None\<rparr>, waits = [], connects = 0, ended = True \<rparr>"

text \<open>
  \<open>_connect_and_stream(symbol)\<close> from the head of its \<open>while\<close> loop with the current
  \<open>backoff\<close>, over a script of transport behaviour. The coroutine itself starts the loop
  with \<open>backoff = 1\<close>.
\<close>

fun ps_loop ::
  "(string \<Rightarrow> real option) \<Rightarrow> price_stream \<Rightarrow> string \<Rightarrow> int \<Rightarrow> (conn \<times> wait_outcome) list
     \<Rightarrow> (price_stream, int) run" where
  "ps_loop pf st symb backoff [] =
     (if running st \<and> \<not> stop_is_set st then still_going st else ps_exit st)"
| "ps_loop pf st symb backoff ((c, wo) # script) =
     (if running st \<and> \<not> stop_is_set st
      then
        (case ps_attempt pf st symb backoff c of
           (st', b, Body_done) \<Rightarrow> after_connect [] (ps_loop pf st' symb b script)
         | (st', b, Closed_break) \<Rightarrow> after_connect [] (ps_exit st')
         | (st', b, Failed e) \<Rightarrow>
             (case ps_on_exception st' symb b wo of
                (ws, Retry b') \<Rightarrow> after_connect ws (ps_loop pf st' symb b' script)
              | (ws, Exit_loop) \<Rightarrow> after_connect ws (ps_exit st')))
      else ps_exit st)"

definition ps_connect_and_stream ::
  "(string \<Rightarrow> real option) \<Rightarrow> price_stream \<Rightarrow> string \<Rightarrow> (conn \<times> wait_outcome) list
     \<Rightarrow> (price_stream, int) run" where
  "ps_connect_and_stream pf st symb script = ps_loop pf st symb 1 script"

section \<open>WebSocketManager (websocket\_manager.py)\<close>

text \<open>\<open>str.lower()\<close> on the ASCII letters; every other character is left as it is.\<close>

definition lower_char :: "char \<Rightarrow> char" where
  "lower_char c =
     (case map_of (zip ''ABCDEFGHIJKLMNOPQRSTUVWXYZ'' ''abcdefghijklmnopqrstuvwxyz'') c of
        None \<Rightarrow> c
      | Some l \<Rightarrow> l)"

definition str_lower :: "string \<Rightarrow> string" where
  "str_lower s = map lower_char s"

text \<open>The dataclass \<open>ConnectionState\<close> of models.py, with its defaults.\<close>

record connection_state =
  status :: string
  symbol :: "string option"
  last_update :: real
  error_count :: int

definition ConnectionState_default :: connection_state where
  "ConnectionState_default =
     \<lparr> status = ''Disconnected'', symbol = None, last_update = 0, error_count = 0 \<rparr>"

text \<open>
  The fields of \<open>WebSocketManager\<close>; a field \<open>_x\<close> of the source is \<open>u_x\<close> here.
  \<open>u_threads_started\<close> and \<open>u_scheduled\<close> log the threads started and the callbacks handed
  to the background loop, as for \<open>PriceStream\<close>. The optional update callback is an
  external collaborator: it is taken not to raise (the one the module installs catches
  every exception), and its effects are outside the model.
\<close>

record ws_manager =
  max_price_history :: nat
  u_price_history :: "sample list"
  u_current_price :: "real option"
  u_connection_state :: connection_state
  u_thread :: "nat option"
  u_loop :: "loop_state option"
  u_stop_event :: "bool option"
  u_websocket :: "string option"
  u_running :: bool
  u_message_count :: int
  u_start_time :: real
  u_threads_started :: "string list"
  u_scheduled :: "callback list"

text \<open>The constructor; \<open>now\<close> is the clock read for \<open>_start_time\<close>.\<close>

definition WebSocketManager_init :: "real \<Rightarrow> nat \<Rightarrow> ws_manager" where
  "WebSocketManager_init now n =
     \<lparr> max_price_history = n, u_price_history = [], u_current_price = None,
       u_connection_state = ConnectionState_default, u_thread = None, u_loop = None,
       u_stop_event = None, u_websocket = None, u_running = False, u_message_count = 0,
       u_start_time = now, u_threads_started = [], u_scheduled = [] \<rparr>"

definition set_status :: "string \<Rightarrow> ws_manager \<Rightarrow> ws_manager" where
  "set_status s st = st\<lparr>u_connection_state := (u_connection_state st)\<lparr>status := s\<rparr>\<rparr>"

definition wm_stop_is_set :: "ws_manager \<Rightarrow> bool" where
  "wm_stop_is_set st = (u_stop_event st = Some True)"

text \<open>
  \<open>WebSocketManager.stop\<close>: returns at once when not running; otherwise clears
  \<open>_running\<close>, hands the event's \<open>set\<close> to the background loop, and sets the status to
  \<open>Disconnected\<close> and the symbol to \<open>None\<close>. It touches neither \<open>_price_history\<close> nor
  \<open>_current_price\<close>.
\<close>

definition wm_stop :: "ws_manager \<Rightarrow> ws_manager" where
  "wm_stop st =
     (if \<not> u_running st then st
      else
        let st1 = set_status ''Disconnecting'' (st\<lparr>u_running := False\<rparr>);
            st2 = (if u_loop st1 = Some Loop_open \<and> u_stop_event st1 \<noteq> None
                   then st1\<lparr>u_scheduled := u_scheduled st1 @ [Set_stop_event]\<rparr> else st1);
            st3 = set_status ''Disconnected'' st2
        in st3\<lparr>u_connection_state := (u_connection_state st3)\<lparr>symbol := None\<rparr>,
               u_websocket := None\<rparr>)"

text \<open>
  \<open>WebSocketManager.start\<close>: the guard compares the stored symbol with the lower-cased
  argument. Otherwise the old session is stopped, a fresh \<open>ConnectionState\<close> is stored,
  the counters and the buffer are reset and a thread is started for the lower-cased
  symbol. Both clock reads of the method are the parameter \<open>now\<close>.
\<close>

definition wm_start :: "real \<Rightarrow> ws_manager \<Rightarrow> string \<Rightarrow> ws_manager" where
  "wm_start now st symb =
     (if u_running st \<and> symbol (u_connection_state st) = Some (str_lower symb) then st
      else
        let st1 = wm_stop st;
            st2 = st1\<lparr>u_connection_state :=
                    \<lparr> status = ''Connecting'', symbol = Some (str_lower symb),
                      last_update = now, error_count = 0 \<rparr>\<rparr>;
            st3 = st2\<lparr>u_running := True, u_start_time := now, u_message_count := 0,
                      u_price_history := []\<rparr>
        in st3\<lparr>u_thread := Some (length (u_threads_started st3)),
               u_threads_started := u_threads_started st3 @ [str_lower symb]\<rparr>)"

definition wm_get_latest_price :: "ws_manager \<Rightarrow> real option" where
  "wm_get_latest_price st = u_current_price st"

definition wm_get_series :: "ws_manager \<Rightarrow> real list \<times> real list" where
  "wm_get_series st =
     (if u_price_history st = [] then ([], [])
      else (map fst (u_price_history st), map snd (u_price_history st)))"

text \<open>
  The body of \<open>async for message in websocket\<close> in \<open>_message_handler\<close>; a frame comes with
  the clock read \<open>tm\<close> taken for \<open>last_update\<close>. The handler has no symbol check. An
  exception outside the three caught ones breaks the loop; nothing is raised.
\<close>

definition wm_on_message ::
  "(string \<Rightarrow> real option) \<Rightarrow> ws_manager \<Rightarrow> real \<times> message \<Rightarrow> ws_manager \<times> verdict" where
  "wm_on_message pf st tmsg =
     (if \<not> u_running st \<or> wm_stop_is_set st then (st, Break)
      else
        (case parse_trade pf (snd tmsg) of
           Inr smp \<Rightarrow>
             (st\<lparr>u_current_price := Some (snd smp),
                 u_price_history := deque_append (max_price_history st) (u_price_history st) smp,
                 u_message_count := u_message_count st + 1,
                 u_connection_state := (u_connection_state st)\<lparr>last_update := fst tmsg\<rparr>\<rparr>,
              Continue)
         | Inl e \<Rightarrow> if skipped_exc e then (st, Continue) else (st, Break)))"

text \<open>\<open>_message_handler\<close>: the receive loop; \<open>Break\<close> when it left the loop early.\<close>

fun wm_message_handler ::
  "(string \<Rightarrow> real option) \<Rightarrow> ws_manager \<Rightarrow> (real \<times> message) list \<Rightarrow> ws_manager \<times> verdict" where
  "wm_message_handler pf st [] = (st, Continue)"
| "wm_message_handler pf st (m # ms) =
     (case wm_on_message pf st m of
        (st', Continue) \<Rightarrow> wm_message_handler pf st' ms
      | (st', v) \<Rightarrow> (st', v))"

text \<open>
  One iteration of \<open>_websocket_handler\<close> as the transport drives it: the connection
  attempt raises, or it opens at clock read \<open>tm\<close>, delivers frames and ends.
\<close>

datatype wm_conn =
    Wm_connect_fails py_exc
  | Wm_connected real "(real \<times> message) list" "py_exc option"

text \<open>
  The \<open>try\<close> body of one iteration: status \<open>Connecting\<close>, then the \<open>async with\<close> block.
  \<open>_message_handler\<close> returns normally after a break; an exception of the iterator
  propagates.
\<close>

definition wm_attempt ::
  "(string \<Rightarrow> real option) \<Rightarrow> ws_manager \<Rightarrow> string \<Rightarrow> real \<Rightarrow> wm_conn
     \<Rightarrow> ws_manager \<times> real \<times> py_exc option" where
  "wm_attempt pf st symb backoff c =
     (let st0 = set_status ''Connecting'' st in
      case c of
        Wm_connect_fails e \<Rightarrow> (st0, backoff, Some e)
      | Wm_connected tm ms ending \<Rightarrow>
          (let st1 = set_status ''Connected'' (st0\<lparr>u_websocket := Some symb\<rparr>);
               st2 = st1\<lparr>u_connection_state := (u_connection_state st1)\<lparr>last_update := tm\<rparr>\<rparr>
           in case wm_message_handler pf st2 ms of
                (st', Continue) \<Rightarrow> (st', 1, ending)
              | (st', v) \<Rightarrow> (st', 1, None)))"

text \<open>
  The two handlers of \<open>_websocket_handler\<close>: \<open>except ConnectionClosedError\<close> reconnects
  at once while running; \<open>except Exception\<close> counts the error and waits \<open>backoff\<close>
  seconds, leaving the loop when the wait completes and doubling \<open>backoff\<close> (capped at
  30) when it times out.
\<close>

definition wm_on_exception ::
  "ws_manager \<Rightarrow> real \<Rightarrow> py_exc \<Rightarrow> wait_outcome \<Rightarrow> ws_manager \<times> real list \<times> real decision" where
  "wm_on_exception st backoff e wo =
     (if e = ConnectionClosedError
      then (if u_running st then (set_status ''Reconnecting'' st, [], Retry backoff)
            else (st, [], Exit_loop))
      else if u_running st
      then
        (let st1 = set_status ''Error'' st;
             st2 = st1\<lparr>u_connection_state :=
                     (u_connection_state st1)\<lparr>error_count := error_count (u_connection_state st1) + 1\<rparr>\<rparr>
         in case wo of
              Completed \<Rightarrow> (st2, [backoff], Exit_loop)
            | Timed_out \<Rightarrow> (st2, [backoff], Retry (min (backoff * 2) 30)))
      else (st, [], Exit_loop))"

definition wm_exit :: "ws_manager \<Rightarrow> (ws_manager, real) run" where
  "wm_exit st =
     \<lparr> final = set_status ''Disconnected'' st, waits = [], connects = 0, ended = True \<rparr>"

text \<open>
  \<open>_websocket_handler(symbol)\<close> from the head of its \<open>while\<close> loop with the current
  \<open>backoff\<close>; the coroutine starts the loop with \<open>backoff = 1.0\<close>.
\<close>

fun wm_loop ::
  "(string \<Rightarrow> real option) \<Rightarrow> ws_manager \<Rightarrow> string \<Rightarrow> real \<Rightarrow> (wm_conn \<times> wait_outcome) list
     \<Rightarrow> (ws_manager, real) run" where
  "wm_loop pf st symb backoff [] =
     (if u_running st \<and> \<not> wm_stop_is_set st then still_going st else wm_exit st)"
| "wm_loop pf st symb backoff ((c, wo) # script) =
     (if u_running st \<and> \<not> wm_stop_is_set st
      then
        (case wm_attempt pf st symb backoff c of
           (st', b, None) \<Rightarrow> after_connect [] (wm_loop pf st' symb b script)
         | (st', b, Some e) \<Rightarrow>
             (case wm_on_exception st' b e wo of
                (st'', ws, Retry b') \<Rightarrow> after_connect ws (wm_loop pf st'' symb b' script)
              | (st'', ws, Exit_loop) \<Rightarrow> after_connect ws (wm_exit st'')))
      else wm_exit st)"

definition wm_websocket_handler ::
  "(string \<Rightarrow> real option) \<Rightarrow> ws_manager \<Rightarrow> string \<Rightarrow> (wm_conn \<times> wait_outcome) list
     \<Rightarrow> (ws_manager, real) run" where
  "wm_websocket_handler pf st symb script = wm_loop pf st symb 1 script"

section \<open>The background thread's entry\<close>

text \<open>
  The first statements of the thread target, before the coroutine runs:
  \<open>_run_event_loop\<close> stores a new loop, a new (unset) stop event and the task,
  \<open>_run_websocket\<close> a new loop and a new stop event. The task handle is the thread's.
\<close>

definition ps_run_event_loop_enter :: "price_stream \<Rightarrow> price_stream" where
  "ps_run_event_loop_enter st =
     st\<lparr>loop := Some Loop_open, stop_event := Some False, connection_task := thread st\<rparr>"

definition wm_run_websocket_enter :: "ws_manager \<Rightarrow> ws_manager" where
  "wm_run_websocket_enter st = st\<lparr>u_loop := Some Loop_open, u_stop_event := Some False\<rparr>"




section \<open>The callbacks that stop schedules\<close>

text \<open>
  What the scheduled callbacks do once the background loop runs them. \<open>set_stop_event\<close>
  of \<open>PriceStream.stop\<close> sets the event that \<open>self._stop_event\<close> holds when it runs;
  \<open>_cleanup\<close> closes the transport in \<open>self.websocket\<close> and cancels the task in
  \<open>self.connection_task\<close>, if there are any, and clears \<open>self.websocket\<close>: the result
  names the transport closed and the task cancelled. \<open>WebSocketManager.stop\<close> schedules
  the \<open>set\<close> of the event it read; as long as no new thread has replaced the event, that
  is the one in \<open>_stop_event\<close>.
\<close>

definition ps_set_stop_event :: "price_stream \<Rightarrow> price_stream" where
  "ps_set_stop_event st =
     (if stop_event st = None then st else st\<lparr>stop_event := Some True\<rparr>)"

definition ps_cleanup :: "price_stream \<Rightarrow> price_stream \<times> string option \<times> nat option" where
  "ps_cleanup st = (st\<lparr>websocket := None\<rparr>, websocket st, connection_task st)"

definition wm_set_stop_event :: "ws_manager \<Rightarrow> ws_manager" where
  "wm_set_stop_event st =
     (if u_stop_event st = None then st else st\<lparr>u_stop_event := Some True\<rparr>)"

section \<open>Sequences of foreground calls\<close>





section \<open>Foreground calls interleaved with background steps\<close>

text \<open>
  The statements of the \<open>async with\<close> block of \<open>_websocket_handler\<close> that run once the
  handshake has completed, before \<open>_message_handler\<close> is awaited: the transport is
  stored, the status becomes \<open>Connected\<close> and \<open>last_update\<close> is the clock read \<open>tm\<close>.
  They do not test \<open>_running\<close>.
\<close>

definition wm_opened :: "ws_manager \<Rightarrow> string \<Rightarrow> real \<Rightarrow> ws_manager" where
  "wm_opened st symb tm =
     (let st1 = set_status ''Connected'' (st\<lparr>u_websocket := Some symb\<rparr>)
      in st1\<lparr>u_connection_state := (u_connection_state st1)\<lparr>last_update := tm\<rparr>\<rparr>)"





section \<open>Malformed frames, by their shape\<close>

text \<open>
  The malformed frames that claim C8 is proved for, described by the frame and not by
  what the parser does with it: text that is not JSON; a JSON object without the key \<open>p\<close>; a
  JSON object whose \<open>p\<close> is a string that \<open>float\<close> rejects; a JSON object whose \<open>p\<close> is a
  float, an integer in the range of a double, a boolean or a numeric string and that
  has no key \<open>T\<close>.
\<close>

fun malformed_frame :: "(string \<Rightarrow> real option) \<Rightarrow> message \<Rightarrow> bool" where
  "malformed_frame pf Not_json = True"
| "malformed_frame pf Too_deep = False"
| "malformed_frame pf (Json (JObj kvs)) =
     (case map_of kvs ''p'' of
        None \<Rightarrow> True
      | Some (JStr s) \<Rightarrow> (pf s = None \<or> map_of kvs ''T'' = None)
      | Some (JInt i) \<Rightarrow> (\<bar>i\<bar> < float_overflow \<and> map_of kvs ''T'' = None)
      | Some (JFloat r) \<Rightarrow> map_of kvs ''T'' = None
      | Some (JBool b) \<Rightarrow> map_of kvs ''T'' = None
      | Some JNull \<Rightarrow> False
      | Some (JArr xs) \<Rightarrow> False
      | Some (JObj kvs') \<Rightarrow> False)"
| "malformed_frame pf (Json JNull) = False"
| "malformed_frame pf (Json (JBool b)) = False"
| "malformed_frame pf (Json (JInt i)) = False"
| "malformed_frame pf (Json (JFloat r)) = False"
| "malformed_frame pf (Json (JStr s)) = False"
| "malformed_frame pf (Json (JArr xs)) = False"

section \<open>Example inputs\<close>

text \<open>
  Python's \<open>float\<close> on the strings the examples use: two decimal prices, and
  \<open>ValueError\<close> for the other strings that occur (\<open>abc\<close>).
\<close>

definition example_float :: "string \<Rightarrow> real option" where
  "example_float s =
     (if s = ''100.5'' then Some (201 / 2) else if s = ''110'' then Some 110 else None)"

text \<open>A trade frame of the feed: the price is a string, the trade time an integer.\<close>

definition trade :: "string \<Rightarrow> int \<Rightarrow> message" where
  "trade p t = Json (JObj [(''e'', JStr ''trade''), (''p'', JStr p), (''T'', JInt t)])"

text \<open>
  A \<open>PriceStream\<close> and a \<open>WebSocketManager\<close> that were started for a symbol, whose
  thread has entered its loop and whose connection has opened and delivered one trade
  at price 100.5 and trade time 2000 ms.
\<close>

definition ps_streaming :: "string \<Rightarrow> price_stream" where
  "ps_streaming symb =
     fst (ps_attempt example_float
            (ps_run_event_loop_enter (ps_start (PriceStream_init 300) symb)) symb 1
            (Connected [trade ''100.5'' 2000] None))"

definition wm_streaming :: "string \<Rightarrow> ws_manager" where
  "wm_streaming symb =
     fst (wm_attempt example_float
            (wm_run_websocket_enter (wm_start 5 (WebSocketManager_init 0 600) symb))
            (str_lower symb) 1
            (Wm_connected 6 [(7, trade ''100.5'' 2000)] None))"

text \<open>
  The same clients after a switch from \<open>ETHUSDT\<close> to \<open>BTCUSDT\<close> during which no frame
  arrived on the open connection: \<open>start("BTCUSDT")\<close> has returned, the old loop has run
  the callbacks that \<open>stop\<close> scheduled, and the new thread has entered its loop.
\<close>

definition ps_switched :: price_stream where
  "ps_switched =
     ps_run_event_loop_enter
       (fst (ps_cleanup (ps_set_stop_event (ps_start (ps_streaming ''ETHUSDT'') ''BTCUSDT''))))"

definition wm_switched :: ws_manager where
  "wm_switched =
     wm_run_websocket_enter
       (wm_set_stop_event (wm_start 9 (wm_streaming ''ETHUSDT'') ''BTCUSDT''))"

lemmas model_defs =
  PriceStream_init_def stop_is_set_def loop_usable_def schedule_def ps_stop_def ps_start_def
  ps_get_series_def ps_get_latest_price_def ps_get_price_change_def parse_trade_def
  skipped_exc_def ps_on_message_def ps_attempt_def ps_run_event_loop_enter_def
  deque_append_def WebSocketManager_init_def ConnectionState_default_def set_status_def
  wm_stop_is_set_def wm_stop_def wm_start_def wm_get_latest_price_def wm_get_series_def
  wm_on_message_def wm_attempt_def wm_run_websocket_enter_def str_lower_def lower_char_def
  example_float_def trade_def ps_streaming_def wm_streaming_def ps_set_stop_event_def
  ps_cleanup_def wm_set_stop_event_def ps_switched_def wm_switched_def Let_def

section \<open>Small integers are in the range of a double\<close>

lemma float_overflow_large: "(1000000 :: int) \<le> float_overflow"
  by (simp add: float_overflow_def)

lemma small_in_range:
  "i < 1000000 \<Longrightarrow> i < float_overflow"
  "i < 1000000 \<Longrightarrow> i < 1000 * float_overflow"
  using float_overflow_large by simp_all

section \<open>The history buffer keeps the newest samples\<close>

lemma deque_append_eq:
  "deque_append n d x = (if n < Suc (length d) then tl (d @ [x]) else d @ [x])"
  by (simp add: deque_append_def Let_def)

lemma foldl_deque_append:
  "length d \<le> n \<Longrightarrow>
     foldl (deque_append n) d xs = drop (length d + length xs - n) (d @ xs)"
proof (induction xs rule: rev_induct)
  case Nil
  then show ?case by simp
next
  case (snoc x xs)
  let ?k = "length d + length xs"
  have IH: "foldl (deque_append n) d xs = drop (?k - n) (d @ xs)"
    using snoc by simp
  define ys where "ys = drop (?k - n) (d @ xs)"
  show ?case
  proof (cases "n \<le> ?k")
    case True
    then have len: "length ys = n" by (simp add: ys_def)
    have "deque_append n ys x = tl (ys @ [x])"
      using len by (simp add: deque_append_eq)
    also have "\<dots> = drop (Suc 0) (ys @ [x])"
      by (simp only: drop_Suc drop_0)
    also have "ys @ [x] = drop (?k - n) ((d @ xs) @ [x])"
      using True by (simp add: ys_def del: append_assoc)
    also have "drop (Suc 0) (drop (?k - n) ((d @ xs) @ [x])) = drop (Suc (?k - n)) ((d @ xs) @ [x])"
      by (simp only: drop_drop add_Suc add_0)
    also have "Suc (?k - n) = length d + length (xs @ [x]) - n"
      using True by simp
    finally have "deque_append n ys x = drop (length d + length (xs @ [x]) - n) ((d @ xs) @ [x])" .
    then show ?thesis using IH by (simp add: ys_def del: drop_append)
  next
    case False
    then have ys: "ys = d @ xs" by (simp add: ys_def)
    have "deque_append n ys x = ys @ [x]"
      using False unfolding ys by (simp add: deque_append_eq)
    then show ?thesis using False IH by (simp add: ys)
  qed
qed

lemma drop_min_eq: "drop (length xs - min (length xs) n) xs = drop (length xs - n) xs"
  by (simp add: min_def)

text \<open>
  Claim C1. A history buffer is created empty with capacity \<open>n\<close> (\<open>max_points\<close> of
  \<open>PriceStream\<close>, \<open>max_price_history\<close> of \<open>WebSocketManager\<close>). After appending any
  sequence \<open>xs\<close> of samples, one by one, it holds at most \<open>n\<close> samples, and they are
  exactly the last \<open>min (length xs) n\<close> samples of \<open>xs\<close> in the order they were appended:
  the oldest samples are the ones evicted. Since \<open>xs\<close> is arbitrary, this holds after
  each single append.
\<close>

theorem C1_buffer_keeps_last_N:
  "length (foldl (deque_append (max_points (PriceStream_init n)))
             (price_data (PriceStream_init n)) xs) \<le> n
   \<and> foldl (deque_append (max_points (PriceStream_init n)))
        (price_data (PriceStream_init n)) xs
      = drop (length xs - min (length xs) n) xs
   \<and> length (foldl (deque_append (max_price_history (WebSocketManager_init now n)))
             (u_price_history (WebSocketManager_init now n)) xs) \<le> n
   \<and> foldl (deque_append (max_price_history (WebSocketManager_init now n)))
        (u_price_history (WebSocketManager_init now n)) xs
      = drop (length xs - min (length xs) n) xs"
  using foldl_deque_append [of "[]" n xs]
  by (simp add: PriceStream_init_def WebSocketManager_init_def drop_min_eq)

theorem C1_buffer_keeps_last_N_witness:
  "foldl (deque_append (max_points (PriceStream_init 2)))
     (price_data (PriceStream_init 2)) [(1, 10), (2, 20), (3, 30)] = [(2, 20), (3, 30)]"
  using C1_buffer_keeps_last_N [of 2 "[(1, 10), (2, 20), (3, 30)]" 0]
  by simp

section \<open>The windowed price change\<close>

lemma scan_back_skip:
  "\<forall>s \<in> set pre. now - fst s < w \<Longrightarrow>
     scan_back now w cur (pre @ ys) = scan_back now w cur ys"
  by (induction pre) auto

lemma scan_back_none:
  "\<forall>s \<in> set ys. now - fst s < w \<Longrightarrow> scan_back now w cur ys = Inr None"
  by (induction ys) auto

lemma rev_split_at:
  "i < length xs \<Longrightarrow> rev xs = rev (drop (Suc i) xs) @ xs ! i # rev (take i xs)"
proof -
  assume "i < length xs"
  then have "xs = take i xs @ xs ! i # drop (Suc i) xs"
    by (rule id_take_nth_drop)
  then have "rev xs = rev (take i xs @ xs ! i # drop (Suc i) xs)"
    by simp
  then show ?thesis by simp
qed

lemma scan_back_reference:
  assumes i: "i < length xs"
    and old: "w \<le> now - fst (xs ! i)"
    and newer: "\<forall>j. i < j \<and> j < length xs \<longrightarrow> now - fst (xs ! j) < w"
  shows "scan_back now w cur (rev xs) =
           (if snd (xs ! i) = 0 then Inl ZeroDivisionError
            else Inr (Some (((cur - snd (xs ! i)) / snd (xs ! i)) * 100)))"
proof -
  have "\<forall>s \<in> set (rev (drop (Suc i) xs)). now - fst s < w"
  proof
    fix s assume "s \<in> set (rev (drop (Suc i) xs))"
    then have "s \<in> set (drop (Suc i) xs)" by simp
    then obtain k where k: "k < length (drop (Suc i) xs)" "s = drop (Suc i) xs ! k"
      by (auto simp: in_set_conv_nth)
    then have "s = xs ! (Suc i + k)" "Suc i + k < length xs" by auto
    then show "now - fst s < w" using newer by auto
  qed
  then have "scan_back now w cur (rev xs) = scan_back now w cur (xs ! i # rev (take i xs))"
    using rev_split_at [OF i] scan_back_skip by metis
  then show ?thesis using old by (cases "xs ! i") auto
qed

text \<open>
  Claim C2, as the code has it. \<open>get_price_change(window_seconds)\<close> returns \<open>None\<close> when
  the buffer holds fewer than two samples, and when no sample is at least
  \<open>window_seconds\<close> older than the clock read \<open>now\<close> of the call. Otherwise the
  reference is the most recent sample \<open>i\<close> whose timestamp is at least \<open>window_seconds\<close>
  before \<open>now\<close> (every later sample is younger than the window), and the result is
  \<open>(latest_price - reference_price) / reference_price * 100\<close>; a reference price of zero
  raises \<open>ZeroDivisionError\<close>. The window is measured from the time of the call, not from
  the latest sample.
\<close>

theorem C2_price_change_from_call_time:
  "(length (price_data st) < 2 \<longrightarrow> ps_get_price_change now w st = Inr None)
   \<and> ((\<forall>s \<in> set (price_data st). now - fst s < w) \<longrightarrow>
        ps_get_price_change now w st = Inr None)
   \<and> (2 \<le> length (price_data st) \<and> i < length (price_data st)
        \<and> w \<le> now - fst (price_data st ! i)
        \<and> (\<forall>j. i < j \<and> j < length (price_data st) \<longrightarrow> now - fst (price_data st ! j) < w)
      \<longrightarrow> ps_get_price_change now w st =
            (if snd (price_data st ! i) = 0 then Inl ZeroDivisionError
             else Inr (Some (((snd (last (price_data st)) - snd (price_data st ! i))
                              / snd (price_data st ! i)) * 100))))"
proof (intro conjI impI)
  assume "length (price_data st) < 2"
  then show "ps_get_price_change now w st = Inr None"
    by (simp add: ps_get_price_change_def)
next
  assume "\<forall>s \<in> set (price_data st). now - fst s < w"
  then have "scan_back now w (snd (last (price_data st))) (rev (price_data st)) = Inr None"
    by (intro scan_back_none) simp
  then show "ps_get_price_change now w st = Inr None"
    by (simp add: ps_get_price_change_def)
next
  assume h: "2 \<le> length (price_data st) \<and> i < length (price_data st)
        \<and> w \<le> now - fst (price_data st ! i)
        \<and> (\<forall>j. i < j \<and> j < length (price_data st) \<longrightarrow> now - fst (price_data st ! j) < w)"
  then have "\<not> length (price_data st) < 2" by simp
  then show "ps_get_price_change now w st =
            (if snd (price_data st ! i) = 0 then Inl ZeroDivisionError
             else Inr (Some (((snd (last (price_data st)) - snd (price_data st ! i))
                              / snd (price_data st ! i)) * 100)))"
    using h scan_back_reference [of i "price_data st" w now "snd (last (price_data st))"]
    by (simp add: ps_get_price_change_def)
qed

text \<open>
  The claim's own example fails: for the samples \<open>(0,100), (30,110), (61,121)\<close> and a
  call at the time of the last sample, \<open>now = 61\<close>, the only sample 60 seconds old is
  \<open>(0,100)\<close> and the result is 21, not 10. A call 60 seconds after the last sample takes
  the last sample itself as the reference and returns 0, although \<open>(0,100)\<close> is the most
  recent sample 60 seconds older than the latest one.
\<close>

theorem C2_price_change_counterexample:
  "ps_get_price_change 61 60
     ((PriceStream_init 300)\<lparr>price_data := [(0, 100), (30, 110), (61, 121)]\<rparr>) = Inr (Some 21)
   \<and> ps_get_price_change 61 60
     ((PriceStream_init 300)\<lparr>price_data := [(0, 100), (30, 110), (61, 121)]\<rparr>) \<noteq> Inr (Some 10)
   \<and> ps_get_price_change 121 60
     ((PriceStream_init 300)\<lparr>price_data := [(0, 100), (30, 110), (61, 121)]\<rparr>) = Inr (Some 0)"
  by (simp add: ps_get_price_change_def PriceStream_init_def)

text \<open>The theorem at the example, at a single sample, and at two samples that are too young.\<close>

theorem C2_price_change_from_call_time_witness:
  "ps_get_price_change 61 60
     ((PriceStream_init 300)\<lparr>price_data := [(0, 100), (30, 110), (61, 121)]\<rparr>) = Inr (Some 21)
   \<and> ps_get_price_change 61 60
     ((PriceStream_init 300)\<lparr>price_data := [(61, 121)]\<rparr>) = Inr None
   \<and> ps_get_price_change 61 60
     ((PriceStream_init 300)\<lparr>price_data := [(30, 110), (61, 121)]\<rparr>) = Inr None"
proof -
  let ?st = "(PriceStream_init 300)\<lparr>price_data := [(0, 100), (30, 110), (61, 121)]\<rparr>"
  let ?one = "(PriceStream_init 300)\<lparr>price_data := [(61, 121)]\<rparr>"
  let ?two = "(PriceStream_init 300)\<lparr>price_data := [(30, 110), (61, 121)]\<rparr>"
  have newer: "\<forall>j. 0 < j \<and> j < length (price_data ?st) \<longrightarrow> (61::real) - fst (price_data ?st ! j) < 60"
    by (auto simp: less_Suc_eq numeral_3_eq_3 nth_Cons')
  have a: "ps_get_price_change 61 60 ?st = Inr (Some 21)"
    using C2_price_change_from_call_time [of ?st 61 60 0] newer by simp
  have b: "ps_get_price_change 61 60 ?one = Inr None"
    using C2_price_change_from_call_time [of ?one 61 60 0] by simp
  have c: "ps_get_price_change 61 60 ?two = Inr None"
    using C2_price_change_from_call_time [of ?two 61 60 0] by simp
  show ?thesis using a b c by simp
qed

section \<open>The example states, evaluated\<close>

lemma ps_streaming_ETH:
  "ps_streaming ''ETHUSDT'' =
     \<lparr> max_points = 300, price_data = [(2, 201 / 2)], current_symbol = Some ''ETHUSDT'',
       websocket = Some ''ETHUSDT'', running = True, loop = Some Loop_open, thread = Some 0,
       connection_task = Some 0, stop_event = Some False,
       threads_started = [''ETHUSDT''], scheduled = [] \<rparr>"
  by (simp add: model_defs small_in_range)

lemma wm_streaming_ETH:
  "wm_streaming ''ETHUSDT'' =
     \<lparr> max_price_history = 600, u_price_history = [(2, 201 / 2)],
       u_current_price = Some (201 / 2),
       u_connection_state =
         \<lparr> status = ''Connected'', symbol = Some ''ethusdt'', last_update = 7,
           error_count = 0 \<rparr>,
       u_thread = Some 0, u_loop = Some Loop_open, u_stop_event = Some False,
       u_websocket = Some ''ethusdt'', u_running = True, u_message_count = 1,
       u_start_time = 5, u_threads_started = [''ethusdt''], u_scheduled = [] \<rparr>"
  by (simp add: model_defs small_in_range)

section \<open>What start and stop do to the buffer\<close>

lemma ps_stop_price_data: "price_data (ps_stop st) = price_data st"
  by (simp add: ps_stop_def schedule_def Let_def)

lemma wm_stop_price_history: "u_price_history (wm_stop m) = u_price_history m"
  by (simp add: wm_stop_def set_status_def Let_def)

lemma ps_start_new_session:
  "\<not> (running st \<and> current_symbol st = Some s) \<Longrightarrow> price_data (ps_start st s) = []"
  by (auto simp add: ps_start_def Let_def)

lemma wm_start_new_session:
  "\<not> (u_running m \<and> symbol (u_connection_state m) = Some (str_lower s)) \<Longrightarrow>
     u_price_history (wm_start now m s) = []"
  by (auto simp add: wm_start_def Let_def)

text \<open>
  Claim C3, as the code has it. The buffer is empty immediately after \<open>start(s2)\<close>
  returns whenever the call begins a new session, that is, in every case but the no-op
  (already running for \<open>s2\<close>), and so in particular when switching from a session for a
  different symbol: \<open>get_series()\<close> then returns \<open>([], [])\<close>. \<open>stop()\<close> does not clear the
  buffer: the samples, and what \<open>get_series()\<close> returns, are the same after it as before.
\<close>

theorem C3_start_clears_stop_keeps:
  "(\<not> (running st \<and> current_symbol st = Some s2) \<longrightarrow>
       price_data (ps_start st s2) = [] \<and> ps_get_series (ps_start st s2) = ([], []))
   \<and> price_data (ps_stop st) = price_data st
   \<and> ps_get_series (ps_stop st) = ps_get_series st
   \<and> (\<not> (u_running m \<and> symbol (u_connection_state m) = Some (str_lower s2)) \<longrightarrow>
       u_price_history (wm_start now m s2) = [] \<and> wm_get_series (wm_start now m s2) = ([], []))
   \<and> u_price_history (wm_stop m) = u_price_history m
   \<and> wm_get_series (wm_stop m) = wm_get_series m"
  using ps_start_new_session [of st s2] wm_start_new_session [of m s2 now]
  by (simp add: ps_get_series_def wm_get_series_def ps_stop_price_data wm_stop_price_history)

text \<open>
  The claim fails for \<open>stop()\<close>: a client that has received one trade still returns it
  from \<open>get_series()\<close> after \<open>stop()\<close> has returned.
\<close>

theorem C3_stop_keeps_buffer_counterexample:
  "ps_get_series (ps_stop (ps_streaming ''ETHUSDT'')) = ([2], [201 / 2])
   \<and> ps_get_series (ps_stop (ps_streaming ''ETHUSDT'')) \<noteq> ([], [])
   \<and> wm_get_series (wm_stop (wm_streaming ''ETHUSDT'')) = ([2], [201 / 2])
   \<and> wm_get_series (wm_stop (wm_streaming ''ETHUSDT'')) \<noteq> ([], [])"
  by (simp add: ps_streaming_ETH wm_streaming_ETH ps_stop_def wm_stop_def ps_get_series_def
      wm_get_series_def loop_usable_def schedule_def set_status_def Let_def)

text \<open>The theorem at the streaming example: a switch to another symbol, and a stop.\<close>

theorem C3_start_clears_stop_keeps_witness:
  "ps_get_series (ps_start (ps_streaming ''ETHUSDT'') ''BTCUSDT'') = ([], [])
   \<and> ps_get_series (ps_stop (ps_streaming ''ETHUSDT'')) = ([2], [201 / 2])
   \<and> wm_get_series (wm_start 9 (wm_streaming ''ETHUSDT'') ''BTCUSDT'') = ([], [])
   \<and> wm_get_series (wm_stop (wm_streaming ''ETHUSDT'')) = ([2], [201 / 2])"
proof -
  have ps: "\<not> (running (ps_streaming ''ETHUSDT'')
              \<and> current_symbol (ps_streaming ''ETHUSDT'') = Some ''BTCUSDT'')"
    by (simp add: ps_streaming_ETH)
  have wm: "\<not> (u_running (wm_streaming ''ETHUSDT'')
              \<and> symbol (u_connection_state (wm_streaming ''ETHUSDT'')) = Some (str_lower ''BTCUSDT''))"
    by (simp add: wm_streaming_ETH str_lower_def lower_char_def)
  have a: "ps_get_series (ps_streaming ''ETHUSDT'') = ([2], [201 / 2])"
    by (simp add: ps_streaming_ETH ps_get_series_def)
  have b: "wm_get_series (wm_streaming ''ETHUSDT'') = ([2], [201 / 2])"
    by (simp add: wm_streaming_ETH wm_get_series_def)
  show ?thesis
    using C3_start_clears_stop_keeps
            [of "ps_streaming ''ETHUSDT''" "''BTCUSDT''" "wm_streaming ''ETHUSDT''" 9]
          ps wm a b
    by simp
qed

section \<open>Starting again for the same symbol\<close>

lemma ps_start_running:
  "running (ps_start st s) \<and> current_symbol (ps_start st s) = Some s"
  by (simp add: ps_start_def Let_def)

lemma wm_start_running:
  "u_running (wm_start now m s)
   \<and> symbol (u_connection_state (wm_start now m s)) = Some (str_lower s)"
  by (simp add: wm_start_def Let_def)

lemma ps_start_noop:
  "running st \<Longrightarrow> current_symbol st = Some s \<Longrightarrow> ps_start st s = st"
  by (simp add: ps_start_def)

lemma wm_start_noop:
  "u_running m \<Longrightarrow> symbol (u_connection_state m) = Some (str_lower s) \<Longrightarrow>
     str_lower s' = str_lower s \<Longrightarrow> wm_start now m s' = m"
  by (simp add: wm_start_def)

text \<open>
  Claim C6, as the code has it. \<open>start(s)\<close> on a \<open>PriceStream\<close> that is running with
  \<open>current_symbol\<close> equal to \<open>s\<close> (the same string) changes nothing: buffer, symbol,
  handles and the log of started threads are the same; so a second \<open>start(s)\<close> after a
  first is a no-op. \<open>start(s')\<close> on a \<open>WebSocketManager\<close> that is running for \<open>s\<close>
  changes nothing whenever \<open>s'\<close> and \<open>s\<close> are equal after lower-casing; so \<open>start(s')\<close>
  after \<open>start(s)\<close> is a no-op for such \<open>s'\<close>.
\<close>

theorem C6_start_same_symbol_noop:
  "(running st \<and> current_symbol st = Some s \<longrightarrow> ps_start st s = st)
   \<and> ps_start (ps_start st s) s = ps_start st s
   \<and> (u_running m \<and> symbol (u_connection_state m) = Some (str_lower s)
        \<and> str_lower s' = str_lower s \<longrightarrow> wm_start now' m s' = m)
   \<and> (str_lower s' = str_lower s \<longrightarrow>
        wm_start now' (wm_start now m s) s' = wm_start now m s)"
proof (intro conjI impI)
  show "ps_start (ps_start st s) s = ps_start st s"
    using ps_start_running [of st s] by (intro ps_start_noop) simp_all
next
  assume "str_lower s' = str_lower s"
  then show "wm_start now' (wm_start now m s) s' = wm_start now m s"
    using wm_start_running [of now m s] by (intro wm_start_noop) simp_all
qed (simp_all add: ps_start_noop wm_start_noop)

lemma ps_streaming_BTC:
  "ps_streaming ''BTCUSDT'' =
     \<lparr> max_points = 300, price_data = [(2, 201 / 2)], current_symbol = Some ''BTCUSDT'',
       websocket = Some ''BTCUSDT'', running = True, loop = Some Loop_open, thread = Some 0,
       connection_task = Some 0, stop_event = Some False,
       threads_started = [''BTCUSDT''], scheduled = [] \<rparr>"
  by (simp add: model_defs small_in_range)

text \<open>
  The claim fails for \<open>PriceStream\<close>, which compares the symbols as given: running for
  \<open>BTCUSDT\<close>, \<open>start("btcusdt")\<close> stops the session, clears the buffer, stores the new
  spelling and starts a second thread.
\<close>

theorem C6_case_sensitive_counterexample:
  "str_lower ''btcusdt'' = str_lower ''BTCUSDT''
   \<and> running (ps_streaming ''BTCUSDT'')
   \<and> current_symbol (ps_streaming ''BTCUSDT'') = Some ''BTCUSDT''
   \<and> price_data (ps_streaming ''BTCUSDT'') = [(2, 201 / 2)]
   \<and> ps_start (ps_streaming ''BTCUSDT'') ''btcusdt'' \<noteq> ps_streaming ''BTCUSDT''
   \<and> price_data (ps_start (ps_streaming ''BTCUSDT'') ''btcusdt'') = []
   \<and> current_symbol (ps_start (ps_streaming ''BTCUSDT'') ''btcusdt'') = Some ''btcusdt''
   \<and> threads_started (ps_start (ps_streaming ''BTCUSDT'') ''btcusdt'')
       = [''BTCUSDT'', ''btcusdt'']"
  by (simp add: ps_streaming_BTC str_lower_def lower_char_def ps_start_def ps_stop_def
      loop_usable_def schedule_def Let_def)

text \<open>
  The theorem at the streaming examples: the same spelling for \<open>PriceStream\<close>, another
  spelling for \<open>WebSocketManager\<close>.
\<close>

theorem C6_start_same_symbol_noop_witness:
  "ps_start (ps_streaming ''BTCUSDT'') ''BTCUSDT'' = ps_streaming ''BTCUSDT''
   \<and> wm_start 9 (wm_streaming ''ETHUSDT'') ''EthUsdt'' = wm_streaming ''ETHUSDT''
   \<and> wm_start 9 (wm_start 5 (WebSocketManager_init 0 600) ''ETHUSDT'') ''ethusdt''
       = wm_start 5 (WebSocketManager_init 0 600) ''ETHUSDT''"
proof -
  have l: "str_lower ''EthUsdt'' = str_lower ''ETHUSDT''"
          "str_lower ''ethusdt'' = str_lower ''ETHUSDT''"
    by (simp_all add: str_lower_def lower_char_def)
  have ps: "running (ps_streaming ''BTCUSDT'')
            \<and> current_symbol (ps_streaming ''BTCUSDT'') = Some ''BTCUSDT''"
    by (simp add: ps_streaming_BTC)
  have wm: "u_running (wm_streaming ''ETHUSDT'')
            \<and> symbol (u_connection_state (wm_streaming ''ETHUSDT'')) = Some (str_lower ''ETHUSDT'')"
    by (simp add: wm_streaming_ETH str_lower_def lower_char_def)
  show ?thesis
    using C6_start_same_symbol_noop
            [where st = "ps_streaming ''BTCUSDT''" and s = "''BTCUSDT''"]
          C6_start_same_symbol_noop
            [where m = "wm_streaming ''ETHUSDT''" and s = "''ETHUSDT''" and s' = "''EthUsdt''"
               and now' = 9]
          C6_start_same_symbol_noop
            [where m = "WebSocketManager_init 0 600" and s = "''ETHUSDT''"
               and s' = "''ethusdt''" and now' = 9 and now = 5]
          l ps wm
    by simp
qed

section \<open>What stop does\<close>




lemma wm_stop_not_running: "\<not> u_running (wm_stop m)"
  by (simp add: wm_stop_def set_status_def Let_def)


section \<open>Accessors before any data\<close>





section \<open>The cached price of WebSocketManager\<close>

lemma wm_stop_current_price: "u_current_price (wm_stop m) = u_current_price m"
  by (simp add: wm_stop_def set_status_def Let_def)

lemma wm_start_current_price: "u_current_price (wm_start now m s) = u_current_price m"
  by (simp add: wm_start_def wm_stop_current_price Let_def)

lemma wm_on_message_price:
  "u_running m \<Longrightarrow> \<not> wm_stop_is_set m \<Longrightarrow> parse_trade pf msg = Inr (ts, p) \<Longrightarrow>
     u_current_price (fst (wm_on_message pf m (tm, msg))) = Some p"
  by (simp add: wm_on_message_def)

text \<open>
  Claim C10, as the code has it. In \<open>WebSocketManager\<close>, \<open>stop\<close> and \<open>start\<close> leave the
  cached \<open>_current_price\<close> as it is, \<open>get_latest_price()\<close> returns that cache, and a
  frame that parses to price \<open>p\<close> sets the cache to \<open>p\<close>. So once a new session has
  been started, by a switch to another symbol or by \<open>stop()\<close> followed by \<open>start\<close>, and
  before a frame of the new session arrives, \<open>get_latest_price()\<close> still returns the
  price cached in the previous session while \<open>get_series()\<close> returns \<open>([], [])\<close>. After
  \<open>stop()\<close> alone \<open>get_latest_price()\<close> returns the cached price as well, and
  \<open>get_series()\<close> returns what it returned before the call.
\<close>

theorem C10_cached_price_survives:
  "u_current_price (wm_stop m) = u_current_price m
   \<and> u_current_price (wm_start now m s) = u_current_price m
   \<and> wm_get_latest_price m = u_current_price m
   \<and> (u_running m \<and> \<not> wm_stop_is_set m \<and> parse_trade pf msg = Inr (ts, p) \<longrightarrow>
        u_current_price (fst (wm_on_message pf m (tm, msg))) = Some p)
   \<and> (\<not> (u_running m \<and> symbol (u_connection_state m) = Some (str_lower s)) \<longrightarrow>
        wm_get_latest_price (wm_start now m s) = u_current_price m
        \<and> wm_get_series (wm_start now m s) = ([], []))
   \<and> wm_get_latest_price (wm_start now (wm_stop m) s) = u_current_price m
   \<and> wm_get_series (wm_start now (wm_stop m) s) = ([], [])
   \<and> wm_get_latest_price (wm_stop m) = u_current_price m
   \<and> wm_get_series (wm_stop m) = wm_get_series m"
proof -
  have "u_price_history (wm_start now (wm_stop m) s) = []"
    by (intro wm_start_new_session) (simp add: wm_stop_not_running)
  then show ?thesis
    using wm_start_new_session [of m s now]
    by (simp add: wm_stop_current_price wm_start_current_price wm_get_latest_price_def
        wm_get_series_def wm_on_message_price wm_stop_price_history)
qed

text \<open>
  The claim fails right after \<open>stop()\<close>, before any new \<open>start\<close>: the manager that
  streamed \<open>ETHUSDT\<close> returns the cached price from \<open>get_latest_price()\<close>, but
  \<open>get_series()\<close> still returns the sample of the stopped session, not \<open>([], [])\<close>.
\<close>

theorem C10_series_after_stop_counterexample:
  "wm_get_latest_price (wm_stop (wm_streaming ''ETHUSDT'')) = Some (201 / 2)
   \<and> wm_get_series (wm_stop (wm_streaming ''ETHUSDT'')) = ([2], [201 / 2])
   \<and> wm_get_series (wm_stop (wm_streaming ''ETHUSDT'')) \<noteq> ([], [])"
  by (simp add: wm_streaming_ETH wm_stop_def wm_get_series_def wm_get_latest_price_def
      set_status_def Let_def)

text \<open>
  The theorem at a manager that cached 100.5 while streaming \<open>ETHUSDT\<close>: after a
  switch to \<open>BTCUSDT\<close>, after \<open>stop\<close> and a new \<open>start\<close>, and after \<open>stop\<close> alone.
\<close>

theorem C10_cached_price_survives_witness:
  "wm_get_latest_price (wm_streaming ''ETHUSDT'') = Some (201 / 2)
   \<and> wm_get_latest_price (wm_start 9 (wm_streaming ''ETHUSDT'') ''BTCUSDT'') = Some (201 / 2)
   \<and> wm_get_series (wm_start 9 (wm_streaming ''ETHUSDT'') ''BTCUSDT'') = ([], [])
   \<and> wm_get_latest_price (wm_start 9 (wm_stop (wm_streaming ''ETHUSDT'')) ''ETHUSDT'')
       = Some (201 / 2)
   \<and> wm_get_series (wm_start 9 (wm_stop (wm_streaming ''ETHUSDT'')) ''ETHUSDT'') = ([], [])
   \<and> wm_get_latest_price (wm_stop (wm_streaming ''ETHUSDT'')) = Some (201 / 2)
   \<and> wm_get_series (wm_stop (wm_streaming ''ETHUSDT'')) = ([2], [201 / 2])"
proof -
  have wm: "\<not> (u_running (wm_streaming ''ETHUSDT'')
              \<and> symbol (u_connection_state (wm_streaming ''ETHUSDT'')) = Some (str_lower ''BTCUSDT''))"
    by (simp add: wm_streaming_ETH str_lower_def lower_char_def)
  have p: "u_current_price (wm_streaming ''ETHUSDT'') = Some (201 / 2)"
    "wm_get_series (wm_streaming ''ETHUSDT'') = ([2], [201 / 2])"
    by (simp_all add: wm_streaming_ETH wm_get_series_def)
  show ?thesis
    using C10_cached_price_survives
            [where m = "wm_streaming ''ETHUSDT''" and s = "''BTCUSDT''" and now = 9]
          C10_cached_price_survives
            [where m = "wm_streaming ''ETHUSDT''" and s = "''ETHUSDT''" and now = 9]
          wm p
    by simp
qed

section \<open>Malformed frames\<close>

lemma malformed_frame_skipped:
  "malformed_frame pf msg \<Longrightarrow> \<exists>e. parse_trade pf msg = Inl e \<and> skipped_exc e"
proof (cases msg)
  case Not_json
  then show ?thesis by (simp add: parse_trade_def skipped_exc_def)
next
  case Too_deep
  assume "malformed_frame pf msg"
  then show ?thesis using Too_deep by simp
next
  case (Json data)
  assume m: "malformed_frame pf msg"
  show ?thesis
  proof (cases data)
    case (JObj kvs)
    show ?thesis
    proof (cases "map_of kvs ''p''")
      case None
      then show ?thesis using Json JObj by (simp add: parse_trade_def skipped_exc_def)
    next
      case (Some pv)
      then show ?thesis using m Json JObj
        by (cases pv) (auto simp: parse_trade_def skipped_exc_def split: option.splits)
    qed
  qed (use m Json in simp_all)
qed

lemma ps_on_message_malformed:
  "malformed_frame pf bad \<Longrightarrow> running st \<Longrightarrow> \<not> stop_is_set st \<Longrightarrow>
     current_symbol st = Some symb \<Longrightarrow> ps_on_message pf st symb bad = (st, Continue)"
  using malformed_frame_skipped [of pf bad] by (auto simp: ps_on_message_def)

lemma wm_on_message_malformed:
  "malformed_frame pf bad \<Longrightarrow> u_running m \<Longrightarrow> \<not> wm_stop_is_set m \<Longrightarrow>
     wm_on_message pf m (tm, bad) = (m, Continue)"
  using malformed_frame_skipped [of pf bad] by (auto simp: wm_on_message_def)

text \<open>The flags the receive loops read are not written by them.\<close>

lemma ps_on_message_flags:
  "ps_on_message pf st symb msg = (st', v) \<Longrightarrow>
     running st' = running st \<and> stop_event st' = stop_event st
     \<and> current_symbol st' = current_symbol st \<and> max_points st' = max_points st"
  by (auto simp: ps_on_message_def split: if_splits sum.splits)

lemma ps_on_message_ok_no_break:
  "running st \<Longrightarrow> \<not> stop_is_set st \<Longrightarrow> current_symbol st = Some symb \<Longrightarrow>
     snd (ps_on_message pf st symb msg) \<noteq> Break"
  by (auto simp: ps_on_message_def split: sum.splits)

lemma wm_on_message_flags:
  "wm_on_message pf m tmsg = (m', v) \<Longrightarrow>
     u_running m' = u_running m \<and> u_stop_event m' = u_stop_event m
     \<and> max_price_history m' = max_price_history m"
  by (auto simp: wm_on_message_def split: if_splits sum.splits)

lemma ps_receive_drop_malformed:
  "malformed_frame pf bad \<Longrightarrow> running st \<Longrightarrow> \<not> stop_is_set st \<Longrightarrow>
     current_symbol st = Some symb \<Longrightarrow>
     ps_receive pf st symb (ms1 @ bad # ms2) = ps_receive pf st symb (ms1 @ ms2)"
proof (induction ms1 arbitrary: st)
  case Nil
  then show ?case by (simp add: ps_on_message_malformed)
next
  case (Cons m ms1)
  obtain st' v where r: "ps_on_message pf st symb m = (st', v)"
    by (cases "ps_on_message pf st symb m")
  from ps_on_message_flags [OF r] Cons.prems
  have f: "running st'" "\<not> stop_is_set st'" "current_symbol st' = Some symb"
    by (simp_all add: stop_is_set_def)
  show ?case
  proof (cases v)
    case Continue
    then show ?thesis using r Cons.IH [OF Cons.prems(1) f] by simp
  qed (use r in simp_all)
qed

lemma wm_message_handler_drop_malformed:
  "malformed_frame pf bad \<Longrightarrow> u_running m \<Longrightarrow> \<not> wm_stop_is_set m \<Longrightarrow>
     wm_message_handler pf m (ms1 @ (tm, bad) # ms2) = wm_message_handler pf m (ms1 @ ms2)"
proof (induction ms1 arbitrary: m)
  case Nil
  then show ?case by (simp add: wm_on_message_malformed)
next
  case (Cons x ms1)
  obtain m' v where r: "wm_on_message pf m x = (m', v)"
    by (cases "wm_on_message pf m x")
  from wm_on_message_flags [OF r] Cons.prems
  have f: "u_running m'" "\<not> wm_stop_is_set m'"
    by (simp_all add: wm_stop_is_set_def)
  show ?case
  proof (cases v)
    case Continue
    then show ?thesis using r Cons.IH [OF Cons.prems(1) f] by simp
  qed (use r in simp_all)
qed

text \<open>
  Claim C8, as the code has it. While the client is running for the connection's symbol
  and no stop is signalled, a malformed frame (\<open>malformed_frame\<close>: text that is not
  JSON, a JSON object without \<open>p\<close>, a JSON object whose \<open>p\<close> is a string that is not a
  number, or a JSON object without \<open>T\<close> whose \<open>p\<close> is a price that \<open>float\<close> converts: a
  float, an integer in the range of a double, a boolean or a numeric string) leaves
  every field as it was, so no sample is appended and \<open>error_count\<close> is not incremented, and the receive loop goes on: the
  loop over frames with the malformed one among them ends as the loop over the same
  frames without it. A frame that parses to a sample is appended to the buffer and
  the loop goes on.
\<close>

theorem C8_malformed_frames_skipped:
  "(malformed_frame pf bad \<and> running st \<and> \<not> stop_is_set st \<and> current_symbol st = Some symb
      \<longrightarrow> ps_on_message pf st symb bad = (st, Continue)
          \<and> ps_receive pf st symb (pre @ bad # post) = ps_receive pf st symb (pre @ post))
   \<and> (running st \<and> \<not> stop_is_set st \<and> current_symbol st = Some symb
        \<and> parse_trade pf good = Inr smp
      \<longrightarrow> ps_on_message pf st symb good
            = (st\<lparr>price_data := deque_append (max_points st) (price_data st) smp\<rparr>, Continue))
   \<and> (malformed_frame pf bad \<and> u_running m \<and> \<not> wm_stop_is_set m
      \<longrightarrow> wm_on_message pf m (tm, bad) = (m, Continue)
          \<and> wm_message_handler pf m (tpre @ (tm, bad) # tpost)
              = wm_message_handler pf m (tpre @ tpost))
   \<and> (u_running m \<and> \<not> wm_stop_is_set m \<and> parse_trade pf good = Inr smp
      \<longrightarrow> u_price_history (fst (wm_on_message pf m (tm, good)))
            = deque_append (max_price_history m) (u_price_history m) smp
          \<and> snd (wm_on_message pf m (tm, good)) = Continue)"
proof (intro conjI impI)
  assume "malformed_frame pf bad \<and> running st \<and> \<not> stop_is_set st \<and> current_symbol st = Some symb"
  then show "ps_on_message pf st symb bad = (st, Continue)"
    and "ps_receive pf st symb (pre @ bad # post) = ps_receive pf st symb (pre @ post)"
    by (simp_all add: ps_on_message_malformed ps_receive_drop_malformed)
next
  assume "running st \<and> \<not> stop_is_set st \<and> current_symbol st = Some symb
        \<and> parse_trade pf good = Inr smp"
  then show "ps_on_message pf st symb good
            = (st\<lparr>price_data := deque_append (max_points st) (price_data st) smp\<rparr>, Continue)"
    by (simp add: ps_on_message_def)
next
  assume "malformed_frame pf bad \<and> u_running m \<and> \<not> wm_stop_is_set m"
  then show "wm_on_message pf m (tm, bad) = (m, Continue)"
    and "wm_message_handler pf m (tpre @ (tm, bad) # tpost)
              = wm_message_handler pf m (tpre @ tpost)"
    by (simp_all add: wm_on_message_malformed wm_message_handler_drop_malformed)
next
  assume "u_running m \<and> \<not> wm_stop_is_set m \<and> parse_trade pf good = Inr smp"
  then show "u_price_history (fst (wm_on_message pf m (tm, good)))
            = deque_append (max_price_history m) (u_price_history m) smp"
    and "snd (wm_on_message pf m (tm, good)) = Continue"
    by (simp_all add: wm_on_message_def)
qed

lemma float_overflow_small: "float_overflow < 10 ^ 400"
  by (simp add: float_overflow_def)

text \<open>
  The claim fails for a price that is not numeric in another way: \<open>float(None)\<close> raises
  \<open>TypeError\<close>, which neither handler skips. For the frame \<open>{"p": null, "T": 3000}\<close> the
  receive loop of \<open>PriceStream\<close> is left by the exception and that of
  \<open>WebSocketManager\<close> by its \<open>break\<close>; the valid frame that follows on the connection is
  not appended, although alone it would be. The loop is left in the same way by a frame
  without \<open>T\<close> whose price is an integer beyond the range of a double
  (\<open>OverflowError\<close>), and by a frame nested too deeply for the decoder
  (\<open>RecursionError\<close>).
\<close>

theorem C8_null_price_counterexample:
  "ps_on_message example_float (ps_streaming ''ETHUSDT'') ''ETHUSDT''
       (Json (JObj [(''p'', JNull), (''T'', JInt 3000)]))
     = (ps_streaming ''ETHUSDT'', Raise TypeError)
   \<and> ps_receive example_float (ps_streaming ''ETHUSDT'') ''ETHUSDT''
       [Json (JObj [(''p'', JNull), (''T'', JInt 3000)]), trade ''110'' 4000]
     = (ps_streaming ''ETHUSDT'', Raise TypeError)
   \<and> ps_receive example_float (ps_streaming ''ETHUSDT'') ''ETHUSDT'' [trade ''110'' 4000]
     = ((ps_streaming ''ETHUSDT'')\<lparr>price_data := [(2, 201 / 2), (4, 110)]\<rparr>, Continue)
   \<and> wm_message_handler example_float (wm_streaming ''ETHUSDT'')
       [(8, Json (JObj [(''p'', JNull), (''T'', JInt 3000)])), (9, trade ''110'' 4000)]
     = (wm_streaming ''ETHUSDT'', Break)
   \<and> ps_on_message example_float (ps_streaming ''ETHUSDT'') ''ETHUSDT''
       (Json (JObj [(''p'', JInt (10 ^ 400))]))
     = (ps_streaming ''ETHUSDT'', Raise OverflowError)
   \<and> wm_on_message example_float (wm_streaming ''ETHUSDT'')
       (8, Json (JObj [(''p'', JInt (10 ^ 400))]))
     = (wm_streaming ''ETHUSDT'', Break)
   \<and> ps_on_message example_float (ps_streaming ''ETHUSDT'') ''ETHUSDT'' Too_deep
     = (ps_streaming ''ETHUSDT'', Raise RecursionError)
   \<and> wm_on_message example_float (wm_streaming ''ETHUSDT'') (8, Too_deep)
     = (wm_streaming ''ETHUSDT'', Break)"
  using float_overflow_small
  by (simp add: ps_streaming_ETH wm_streaming_ETH ps_on_message_def wm_on_message_def
      parse_trade_def skipped_exc_def stop_is_set_def wm_stop_is_set_def trade_def
      example_float_def deque_append_def small_in_range del: power_numeral)

text \<open>The theorem at frames that are not JSON and at the price string \<open>abc\<close>.\<close>

theorem C8_malformed_frames_skipped_witness:
  "ps_receive example_float (ps_streaming ''ETHUSDT'') ''ETHUSDT''
       [Not_json, trade ''110'' 4000]
     = ((ps_streaming ''ETHUSDT'')\<lparr>price_data := [(2, 201 / 2), (4, 110)]\<rparr>, Continue)
   \<and> ps_on_message example_float (ps_streaming ''ETHUSDT'') ''ETHUSDT''
       (Json (JObj [(''p'', JStr ''abc''), (''T'', JInt 3000)]))
     = (ps_streaming ''ETHUSDT'', Continue)
   \<and> wm_on_message example_float (wm_streaming ''ETHUSDT'')
       (8, Json (JObj [(''p'', JStr ''abc''), (''T'', JInt 3000)]))
     = (wm_streaming ''ETHUSDT'', Continue)
   \<and> wm_message_handler example_float (wm_streaming ''ETHUSDT'')
       [(8, Not_json), (9, trade ''110'' 4000)]
     = wm_message_handler example_float (wm_streaming ''ETHUSDT'') [(9, trade ''110'' 4000)]"
proof -
  let ?st = "ps_streaming ''ETHUSDT''" and ?m = "wm_streaming ''ETHUSDT''"
  let ?abc = "Json (JObj [(''p'', JStr ''abc''), (''T'', JInt 3000)])"
  have flags: "running ?st \<and> \<not> stop_is_set ?st \<and> current_symbol ?st = Some ''ETHUSDT''"
    "u_running ?m \<and> \<not> wm_stop_is_set ?m"
    by (simp_all add: ps_streaming_ETH wm_streaming_ETH stop_is_set_def wm_stop_is_set_def)
  have bad: "malformed_frame example_float Not_json" "malformed_frame example_float ?abc"
    by (simp_all add: example_float_def)
  have good: "parse_trade example_float (trade ''110'' 4000) = Inr (4, 110)"
    by (simp add: parse_trade_def trade_def example_float_def small_in_range)
  have app: "deque_append (max_points ?st) (price_data ?st) (4, 110) = [(2, 201 / 2), (4, 110)]"
    by (simp add: ps_streaming_ETH deque_append_def)
  note inst1 = C8_malformed_frames_skipped
            [where pf = example_float and bad = Not_json and st = ?st and symb = "''ETHUSDT''"
               and pre = "[]" and post = "[trade ''110'' 4000]" and good = "trade ''110'' 4000"
               and smp = "(4, 110)" and m = ?m and tm = 8 and tpre = "[]"
               and tpost = "[(9, trade ''110'' 4000)]"]
  note inst2 = C8_malformed_frames_skipped
            [where pf = example_float and bad = ?abc and st = ?st and symb = "''ETHUSDT''"
               and pre = "[]" and post = "[]" and good = "trade ''110'' 4000"
               and smp = "(4, 110)" and m = ?m and tm = 8 and tpre = "[]" and tpost = "[]"]
  have a: "ps_receive example_float ?st ''ETHUSDT'' [Not_json, trade ''110'' 4000]
     = (?st\<lparr>price_data := [(2, 201 / 2), (4, 110)]\<rparr>, Continue)"
    using inst1 flags bad good app by simp
  have b: "ps_on_message example_float ?st ''ETHUSDT'' ?abc = (?st, Continue)"
    using inst2 flags bad by simp
  have c: "wm_on_message example_float ?m (8, ?abc) = (?m, Continue)"
    using inst2 flags bad by simp
  have d: "wm_message_handler example_float ?m [(8, Not_json), (9, trade ''110'' 4000)]
     = wm_message_handler example_float ?m [(9, trade ''110'' 4000)]"
    using inst1 flags bad by simp
  show ?thesis using a b c d by simp
qed

section \<open>Backoff between reconnection attempts\<close>

lemma backoff_doubling:
  fixes b :: "'a :: linordered_idom"
  assumes "0 < b"
  shows "min (min (b * 2) 30 * 2 ^ i) 30 = min (b * 2 ^ Suc i) 30"
proof (cases "b * 2 \<le> 30")
  case True
  then show ?thesis by (simp add: mult.assoc)
next
  case False
  have p: "(1 :: 'a) \<le> 2 ^ i" by simp
  have l: "(30 :: 'a) \<le> 30 * 2 ^ i"
    using mult_left_mono [OF p, of 30] by simp
  have "(30 :: 'a) < b * 2" using False by (simp add: not_le)
  also have "b * 2 = b * 2 * 1" by simp
  also have "\<dots> \<le> b * 2 * 2 ^ i"
    by (rule mult_left_mono [OF p]) (use assms in simp)
  also have "\<dots> = b * 2 ^ Suc i" by (simp add: mult.assoc)
  finally have r: "30 \<le> b * 2 ^ Suc i" by (rule less_imp_le)
  have "min (b * 2) 30 = 30" using False by simp
  then have "min (min (b * 2) 30 * 2 ^ i) 30 = 30" using l by simp
  moreover have "min (b * 2 ^ Suc i) 30 = 30" using r by simp
  ultimately show ?thesis by simp
qed

lemma backoff_list:
  fixes b :: "'a :: linordered_idom"
  assumes "0 < b" "b \<le> 30"
  shows "b # map (\<lambda>i. min (min (b * 2) 30 * 2 ^ i) 30) [0..<k]
           = map (\<lambda>i. min (b * 2 ^ i) 30) [0..<Suc k]"
proof -
  have "map (\<lambda>i. min (b * 2 ^ i) 30) [0..<Suc k]
          = min (b * 2 ^ 0) 30 # map (\<lambda>i. min (b * 2 ^ Suc i) 30) [0..<k]"
    by (simp only: map_upt_Suc)
  then show ?thesis using assms by (simp add: backoff_doubling)
qed

lemma waits_after_connect: "waits (after_connect ws r) = ws @ waits r"
  by (simp add: after_connect_def)

lemma ps_loop_failures:
  assumes "running st" "stop_event st = Some False" "current_symbol st = Some symb"
    and "0 < b" "b \<le> 30"
  shows "waits (ps_loop pf st symb b (replicate k (Connect_fails e, Timed_out)))
           = map (\<lambda>i. min (b * 2 ^ i) 30) [0..<k]"
  using assms(4,5)
proof (induction k arbitrary: b)
  case 0
  then show ?case using assms(1,2) by (simp add: stop_is_set_def still_going_def)
next
  case (Suc k)
  have b': "0 < min (b * 2) 30" "min (b * 2) 30 \<le> 30"
    using Suc.prems by simp_all
  have "waits (ps_loop pf st symb b (replicate (Suc k) (Connect_fails e, Timed_out)))
          = b # waits (ps_loop pf st symb (min (b * 2) 30) (replicate k (Connect_fails e, Timed_out)))"
    using assms(1-3)
    by (simp add: stop_is_set_def ps_attempt_def ps_on_exception_def waits_after_connect)
  also have "\<dots> = b # map (\<lambda>i. min (min (b * 2) 30 * 2 ^ i) 30) [0..<k]"
    using Suc.IH [OF b'] by simp
  also have "\<dots> = map (\<lambda>i. min (b * 2 ^ i) 30) [0..<Suc k]"
    using Suc.prems by (rule backoff_list)
  finally show ?case .
qed

lemma wm_loop_failures:
  assumes "u_running m" "\<not> wm_stop_is_set m" "e \<noteq> ConnectionClosedError"
    and "0 < b" "b \<le> 30"
  shows "waits (wm_loop pf m symb b (replicate k (Wm_connect_fails e, Timed_out)))
           = map (\<lambda>i. min (b * 2 ^ i) 30) [0..<k]"
  using assms(1,2,4,5)
proof (induction k arbitrary: b m)
  case 0
  then show ?case by (simp add: still_going_def)
next
  case (Suc k)
  let ?m0 = "set_status ''Connecting'' m"
  let ?m1 = "set_status ''Error'' ?m0"
  let ?m2 = "?m1\<lparr>u_connection_state :=
               (u_connection_state ?m1)\<lparr>error_count := error_count (u_connection_state ?m1) + 1\<rparr>\<rparr>"
  have b': "0 < min (b * 2) 30" "min (b * 2) 30 \<le> 30"
    using Suc.prems by simp_all
  have f: "u_running ?m2" "\<not> wm_stop_is_set ?m2"
    using Suc.prems by (simp_all add: set_status_def wm_stop_is_set_def)
  have "waits (wm_loop pf m symb b (replicate (Suc k) (Wm_connect_fails e, Timed_out)))
          = b # waits (wm_loop pf ?m2 symb (min (b * 2) 30) (replicate k (Wm_connect_fails e, Timed_out)))"
    using Suc.prems(1,2) assms(3)
    by (simp add: wm_attempt_def wm_on_exception_def waits_after_connect Let_def set_status_def)
  also have "\<dots> = b # map (\<lambda>i. min (min (b * 2) 30 * 2 ^ i) 30) [0..<k]"
    using Suc.IH [OF f b'] by simp
  also have "\<dots> = map (\<lambda>i. min (b * 2 ^ i) 30) [0..<Suc k]"
    using Suc.prems(3,4) by (rule backoff_list)
  finally show ?case .
qed

lemma py_getitem_exc: "py_getitem d k = Inl e \<Longrightarrow> e = KeyError \<or> e = TypeError"
  by (cases d) (auto split: option.splits)

lemma py_float_exc:
  "py_float pf v = Inl e \<Longrightarrow> e = ValueError \<or> e = TypeError \<or> e = OverflowError"
  by (cases v) (auto split: option.splits if_splits)

lemma py_div_1000_exc: "py_div_1000 v = Inl e \<Longrightarrow> e = TypeError \<or> e = OverflowError"
  by (cases v) (auto split: if_splits)

lemma parse_trade_exc:
  "parse_trade pf msg = Inl e \<Longrightarrow>
     e = JSONDecodeError \<or> e = RecursionError \<or> e = KeyError \<or> e = ValueError
     \<or> e = TypeError \<or> e = OverflowError"
  by (auto simp: parse_trade_def split: message.splits sum.splits
      dest: py_getitem_exc py_float_exc py_div_1000_exc)

lemma ps_on_message_raise:
  "snd (ps_on_message pf st symb msg) \<noteq> Raise ConnectionClosedError"
  using parse_trade_exc [of pf msg ConnectionClosedError]
  by (auto simp: ps_on_message_def split: sum.splits)

lemma ps_receive_flags:
  "ps_receive pf st symb ms = (st', v) \<Longrightarrow>
     running st' = running st \<and> stop_event st' = stop_event st
     \<and> current_symbol st' = current_symbol st"
proof (induction ms arbitrary: st)
  case Nil
  then show ?case by simp
next
  case (Cons m ms)
  obtain st1 v1 where r: "ps_on_message pf st symb m = (st1, v1)"
    by (cases "ps_on_message pf st symb m")
  show ?case
  proof (cases v1)
    case Continue
    then show ?thesis using Cons r ps_on_message_flags [OF r] by simp
  qed (use Cons.prems r ps_on_message_flags [OF r] in auto)
qed

lemma ps_receive_verdict:
  "running st \<Longrightarrow> \<not> stop_is_set st \<Longrightarrow> current_symbol st = Some symb \<Longrightarrow>
     snd (ps_receive pf st symb ms) \<noteq> Break
     \<and> snd (ps_receive pf st symb ms) \<noteq> Raise ConnectionClosedError"
proof (induction ms arbitrary: st)
  case Nil
  then show ?case by simp
next
  case (Cons m ms)
  obtain st1 v1 where r: "ps_on_message pf st symb m = (st1, v1)"
    by (cases "ps_on_message pf st symb m")
  have f: "running st1" "\<not> stop_is_set st1" "current_symbol st1 = Some symb"
    using ps_on_message_flags [OF r] Cons.prems by (simp_all add: stop_is_set_def)
  have v: "v1 \<noteq> Break" "v1 \<noteq> Raise ConnectionClosedError"
    using ps_on_message_ok_no_break [OF Cons.prems, of pf m] ps_on_message_raise [of pf st symb m] r
    by simp_all
  show ?case
  proof (cases v1)
    case Continue
    then show ?thesis using r Cons.IH [OF f] by simp
  qed (use r v in simp_all)
qed

lemma ps_on_exception_flags:
  "running st \<Longrightarrow> stop_event st = Some False \<Longrightarrow> current_symbol st = Some symb \<Longrightarrow>
     ps_on_exception st symb b wo
       = ([b], case wo of Completed \<Rightarrow> Exit_loop | Timed_out \<Rightarrow> Retry (min (b * 2) 30))"
  by (cases wo) (simp_all add: ps_on_exception_def stop_is_set_def)

lemma ps_first_wait:
  assumes "running st" "stop_event st = Some False" "current_symbol st = Some symb"
  shows "take 1 (waits (ps_loop pf st symb b ((Connect_fails e, wo) # rest))) = [b]"
  using assms
  by (cases wo)
     (simp_all add: stop_is_set_def ps_attempt_def ps_on_exception_def waits_after_connect)

lemma ps_wait_after_connection:
  assumes f: "running st" "stop_event st = Some False" "current_symbol st = Some symb"
    and ending: "ending \<noteq> Some ConnectionClosedError"
  shows "take 1 (waits (ps_loop pf st symb b
                   ((Connected ms ending, wo) # (Connect_fails e, wo') # rest))) = [1]"
proof -
  let ?st1 = "st\<lparr>websocket := Some symb\<rparr>"
  obtain st' v where r: "ps_receive pf ?st1 symb ms = (st', v)"
    by (cases "ps_receive pf ?st1 symb ms")
  have f': "running st'" "stop_event st' = Some False" "current_symbol st' = Some symb"
    using ps_receive_flags [OF r] f by simp_all
  have v: "v \<noteq> Break" "v \<noteq> Raise ConnectionClosedError"
    using ps_receive_verdict [of ?st1 symb pf ms] f r by (simp_all add: stop_is_set_def)
  note ex = ps_on_exception_flags [OF f', of 1 wo]
  have loop: "running st \<and> \<not> stop_is_set st"
    using f by (simp add: stop_is_set_def)
  show ?thesis
  proof (cases v)
    case Continue
    show ?thesis
    proof (cases ending)
      case None
      then show ?thesis
        using loop r Continue ps_first_wait [OF f', of pf 1 e wo' rest]
        by (simp add: ps_attempt_def waits_after_connect)
    next
      case (Some e')
      then have "e' \<noteq> ConnectionClosedError" using ending by simp
      then show ?thesis
        using loop r Continue Some ex
        by (cases wo) (simp_all add: ps_attempt_def waits_after_connect)
    qed
  next
    case Break
    then show ?thesis using v by simp
  next
    case (Raise e')
    then have "e' \<noteq> ConnectionClosedError" using v by simp
    then show ?thesis
      using loop r Raise ex
      by (cases wo) (simp_all add: ps_attempt_def waits_after_connect)
  qed
qed

lemma wm_message_handler_flags:
  "wm_message_handler pf m ms = (m', v) \<Longrightarrow>
     u_running m' = u_running m \<and> u_stop_event m' = u_stop_event m"
proof (induction ms arbitrary: m)
  case Nil
  then show ?case by simp
next
  case (Cons x ms)
  obtain m1 v1 where r: "wm_on_message pf m x = (m1, v1)"
    by (cases "wm_on_message pf m x")
  show ?case
  proof (cases v1)
    case Continue
    then show ?thesis using Cons r wm_on_message_flags [OF r] by simp
  qed (use Cons.prems r wm_on_message_flags [OF r] in auto)
qed

lemma wm_first_wait:
  assumes "u_running m" "\<not> wm_stop_is_set m" "e \<noteq> ConnectionClosedError"
  shows "take 1 (waits (wm_loop pf m symb b ((Wm_connect_fails e, wo) # rest))) = [b]"
  using assms
  by (cases wo)
     (simp_all add: wm_attempt_def wm_on_exception_def waits_after_connect set_status_def
        Let_def)

lemma wm_wait_after_connection:
  assumes f: "u_running m" "\<not> wm_stop_is_set m" and e: "e \<noteq> ConnectionClosedError"
  shows "take 1 (waits (wm_loop pf m symb b
                   ((Wm_connected tm tms ending, wo) # (Wm_connect_fails e, wo') # rest))) = [1]"
proof -
  let ?m0 = "set_status ''Connecting'' m"
  let ?m1 = "set_status ''Connected'' (?m0\<lparr>u_websocket := Some symb\<rparr>)"
  let ?m2 = "?m1\<lparr>u_connection_state := (u_connection_state ?m1)\<lparr>last_update := tm\<rparr>\<rparr>"
  obtain m' v where r: "wm_message_handler pf ?m2 tms = (m', v)"
    by (cases "wm_message_handler pf ?m2 tms")
  have f': "u_running m'" "\<not> wm_stop_is_set m'"
    using wm_message_handler_flags [OF r] f by (simp_all add: set_status_def wm_stop_is_set_def)
  have att: "wm_attempt pf m symb b (Wm_connected tm tms ending)
               = (m', 1, if v = Continue then ending else None)"
    using r by (cases v) (simp_all add: wm_attempt_def Let_def)
  have next_wait: "take 1 (waits (wm_loop pf m'' symb 1 ((Wm_connect_fails e, wo') # rest))) = [1]"
    if "u_running m''" "\<not> wm_stop_is_set m''" for m''
    using that e by (rule wm_first_wait)
  show ?thesis
  proof (cases "if v = Continue then ending else None")
    case None
    then show ?thesis using f att next_wait [OF f'] by (simp add: waits_after_connect)
  next
    case (Some e')
    show ?thesis
    proof (cases "e' = ConnectionClosedError")
      case True
      have "u_running (set_status ''Reconnecting'' m')"
        "\<not> wm_stop_is_set (set_status ''Reconnecting'' m')"
        using f' by (simp_all add: set_status_def wm_stop_is_set_def)
      then show ?thesis
        using f f' att Some True next_wait [of "set_status ''Reconnecting'' m'"]
        by (simp add: wm_on_exception_def waits_after_connect)
    next
      case False
      then show ?thesis
        using f f' att Some
        by (cases wo) (simp_all add: wm_on_exception_def waits_after_connect Let_def)
    qed
  qed
qed

lemma ps_run_after_connection:
  assumes f: "running st" "stop_event st = Some False" "current_symbol st = Some symb"
    and ending: "ending \<noteq> Some ConnectionClosedError"
  shows "waits (ps_loop pf st symb b
                 ((Connected ms ending, Timed_out) # replicate k (Connect_fails e, Timed_out)))
           \<in> {map (\<lambda>i. min (2 ^ i) 30) [0..<k], map (\<lambda>i. min (2 ^ i) 30) [0..<Suc k]}"
proof -
  let ?fails = "replicate k (Connect_fails e, Timed_out)"
  let ?st1 = "st\<lparr>websocket := Some symb\<rparr>"
  obtain st' v where r: "ps_receive pf ?st1 symb ms = (st', v)"
    by (cases "ps_receive pf ?st1 symb ms")
  have f': "running st'" "stop_event st' = Some False" "current_symbol st' = Some symb"
    using ps_receive_flags [OF r] f by simp_all
  have v: "v \<noteq> Break" "v \<noteq> Raise ConnectionClosedError"
    using ps_receive_verdict [of ?st1 symb pf ms] f r by (simp_all add: stop_is_set_def)
  have loop: "running st \<and> \<not> stop_is_set st"
    using f by (simp add: stop_is_set_def)
  have clean: "waits (ps_loop pf st' symb 1 ?fails) = map (\<lambda>i. min (2 ^ i) 30) [0..<k]"
    using ps_loop_failures [OF f', of 1 pf k e] by simp
  have "waits (ps_loop pf st' symb 2 ?fails) = map (\<lambda>i. min (2 * 2 ^ i) 30) [0..<k]"
    using ps_loop_failures [OF f', of 2 pf k e] by simp
  then have failed: "1 # waits (ps_loop pf st' symb 2 ?fails)
                       = map (\<lambda>i. min (2 ^ i) 30) [0..<Suc k]"
    using backoff_list [of "1 :: int" k] by simp
  note ex = ps_on_exception_flags [OF f', of 1 Timed_out]
  consider "ps_attempt pf st symb b (Connected ms ending) = (st', 1, Body_done)"
    | e' where "ps_attempt pf st symb b (Connected ms ending) = (st', 1, Failed e')"
  proof (cases v)
    case Continue
    then show ?thesis using r ending that by (cases ending) (auto simp: ps_attempt_def)
  next
    case Break
    then show ?thesis using v by simp
  next
    case (Raise e')
    then show ?thesis using r v that by (auto simp: ps_attempt_def)
  qed
  then show ?thesis
  proof cases
    case 1
    then show ?thesis using loop clean by (simp add: waits_after_connect)
  next
    case 2
    then show ?thesis using loop failed ex by (simp add: waits_after_connect)
  qed
qed

lemma wm_on_exception_flags:
  "wm_on_exception m b e wo = (m', ws, d) \<Longrightarrow>
     u_running m' = u_running m \<and> u_stop_event m' = u_stop_event m"
  by (auto simp: wm_on_exception_def set_status_def Let_def
      split: if_splits wait_outcome.splits)

lemma wm_run_after_connection:
  assumes f: "u_running m" "\<not> wm_stop_is_set m" and e: "e \<noteq> ConnectionClosedError"
  shows "waits (wm_loop pf m symb b
                 ((Wm_connected tm tms ending, Timed_out)
                    # replicate k (Wm_connect_fails e, Timed_out)))
           \<in> {map (\<lambda>i. min (2 ^ i) 30) [0..<k], map (\<lambda>i. min (2 ^ i) 30) [0..<Suc k]}"
proof -
  let ?fails = "replicate k (Wm_connect_fails e, Timed_out)"
  let ?m0 = "set_status ''Connecting'' m"
  let ?m1 = "set_status ''Connected'' (?m0\<lparr>u_websocket := Some symb\<rparr>)"
  let ?m2 = "?m1\<lparr>u_connection_state := (u_connection_state ?m1)\<lparr>last_update := tm\<rparr>\<rparr>"
  obtain m' v where r: "wm_message_handler pf ?m2 tms = (m', v)"
    by (cases "wm_message_handler pf ?m2 tms")
  have f': "u_running m'" "\<not> wm_stop_is_set m'"
    using wm_message_handler_flags [OF r] f by (simp_all add: set_status_def wm_stop_is_set_def)
  have att: "wm_attempt pf m symb b (Wm_connected tm tms ending)
               = (m', 1, if v = Continue then ending else None)"
    using r by (cases v) (simp_all add: wm_attempt_def Let_def)
  have clean: "waits (wm_loop pf m'' symb 1 ?fails) = map (\<lambda>i. min (2 ^ i) 30) [0..<k]"
    if "u_running m''" "\<not> wm_stop_is_set m''" for m''
    using wm_loop_failures [OF that e, of 1 pf symb k] by simp
  have failed: "1 # waits (wm_loop pf m'' symb 2 ?fails) = map (\<lambda>i. min (2 ^ i) 30) [0..<Suc k]"
    if "u_running m''" "\<not> wm_stop_is_set m''" for m''
  proof -
    have "waits (wm_loop pf m'' symb 2 ?fails) = map (\<lambda>i. min (2 * 2 ^ i) 30) [0..<k]"
      using wm_loop_failures [OF that e, of 2 pf symb k] by simp
    then show ?thesis using backoff_list [of "1 :: real" k] by simp
  qed
  show ?thesis
  proof (cases "if v = Continue then ending else None")
    case None
    then show ?thesis using f att clean [OF f'] by (simp add: waits_after_connect)
  next
    case (Some e')
    obtain m'' ws d where x: "wm_on_exception m' 1 e' Timed_out = (m'', ws, d)"
      by (cases "wm_on_exception m' 1 e' Timed_out")
    have f'': "u_running m''" "\<not> wm_stop_is_set m''"
      using wm_on_exception_flags [OF x] f' by (simp_all add: wm_stop_is_set_def)
    have "(ws = [] \<and> d = Retry 1) \<or> (ws = [1] \<and> d = Retry 2)"
      using x f' by (auto simp: wm_on_exception_def Let_def split: if_splits)
    then show ?thesis
      using f att Some x clean [OF f''] failed [OF f'']
      by (auto simp: waits_after_connect)
  qed
qed

text \<open>
  Claim C4. Inside the background unit (running for its symbol, its stop event not
  set), a run of \<open>k\<close> consecutive failures of \<open>websockets.connect\<close> whose waits time
  out makes the waits \<open>1, 2, 4, 8, 16, 30, 30, \<dots>\<close>: the \<open>k\<close>-th wait is
  \<open>min (2 ^ (k - 1)) 30\<close> seconds. After a connection has opened, whatever \<open>backoff\<close>
  had grown to, the first wait that follows is 1 second, and a run of failures that
  follows the connection has the same waits \<open>1, 2, 4, \<dots>\<close> again (one wait more when
  the connection itself ended by an error that is waited on). For \<open>PriceStream\<close> the
  connection must not end by \<open>ConnectionClosed\<close>, on which the coroutine leaves its loop
  without any wait; for \<open>WebSocketManager\<close> the failures are those its
  \<open>except Exception\<close> handles, \<open>ConnectionClosedError\<close> being retried without a wait.
\<close>

theorem C4_backoff_doubles_and_resets:
  "(running st \<and> stop_event st = Some False \<and> current_symbol st = Some symb \<longrightarrow>
      waits (ps_connect_and_stream pf st symb (replicate k (Connect_fails e, Timed_out)))
        = map (\<lambda>i. min (2 ^ i) 30) [0..<k]
      \<and> (ending \<noteq> Some ConnectionClosedError \<longrightarrow>
           take 1 (waits (ps_loop pf st symb b
                     ((Connected ms ending, wo) # (Connect_fails e, wo') # rest))) = [1]
           \<and> waits (ps_loop pf st symb b
                     ((Connected ms ending, Timed_out) # replicate k (Connect_fails e, Timed_out)))
               \<in> {map (\<lambda>i. min (2 ^ i) 30) [0..<k], map (\<lambda>i. min (2 ^ i) 30) [0..<Suc k]}))
   \<and> (u_running m \<and> \<not> wm_stop_is_set m \<and> e' \<noteq> ConnectionClosedError \<longrightarrow>
      waits (wm_websocket_handler pf m lsymb (replicate k (Wm_connect_fails e', Timed_out)))
        = map (\<lambda>i. min (2 ^ i) 30) [0..<k]
      \<and> take 1 (waits (wm_loop pf m lsymb rb
                  ((Wm_connected tm tms wending, wo) # (Wm_connect_fails e', wo') # wrest))) = [1]
      \<and> waits (wm_loop pf m lsymb rb
                  ((Wm_connected tm tms wending, Timed_out)
                     # replicate k (Wm_connect_fails e', Timed_out)))
          \<in> {map (\<lambda>i. min (2 ^ i) 30) [0..<k], map (\<lambda>i. min (2 ^ i) 30) [0..<Suc k]})"
proof (intro conjI impI)
  assume "running st \<and> stop_event st = Some False \<and> current_symbol st = Some symb"
  then have f: "running st" "stop_event st = Some False" "current_symbol st = Some symb"
    by simp_all
  show "waits (ps_connect_and_stream pf st symb (replicate k (Connect_fails e, Timed_out)))
        = map (\<lambda>i. min (2 ^ i) 30) [0..<k]"
    using ps_loop_failures [OF f, of 1 pf k e] by (simp add: ps_connect_and_stream_def)
  assume c: "ending \<noteq> Some ConnectionClosedError"
  with f show "take 1 (waits (ps_loop pf st symb b
                     ((Connected ms ending, wo) # (Connect_fails e, wo') # rest))) = [1]"
    by (rule ps_wait_after_connection)
  from f c show "waits (ps_loop pf st symb b
                     ((Connected ms ending, Timed_out) # replicate k (Connect_fails e, Timed_out)))
               \<in> {map (\<lambda>i. min (2 ^ i) 30) [0..<k], map (\<lambda>i. min (2 ^ i) 30) [0..<Suc k]}"
    by (rule ps_run_after_connection)
next
  assume "u_running m \<and> \<not> wm_stop_is_set m \<and> e' \<noteq> ConnectionClosedError"
  then have f: "u_running m" "\<not> wm_stop_is_set m" "e' \<noteq> ConnectionClosedError"
    by simp_all
  show "waits (wm_websocket_handler pf m lsymb (replicate k (Wm_connect_fails e', Timed_out)))
        = map (\<lambda>i. min (2 ^ i) 30) [0..<k]"
    using wm_loop_failures [OF f, of 1 pf lsymb k] by (simp add: wm_websocket_handler_def)
  from f show "take 1 (waits (wm_loop pf m lsymb rb
                  ((Wm_connected tm tms wending, wo) # (Wm_connect_fails e', wo') # wrest))) = [1]"
    by (rule wm_wait_after_connection)
  from f show "waits (wm_loop pf m lsymb rb
                  ((Wm_connected tm tms wending, Timed_out)
                     # replicate k (Wm_connect_fails e', Timed_out)))
          \<in> {map (\<lambda>i. min (2 ^ i) 30) [0..<k], map (\<lambda>i. min (2 ^ i) 30) [0..<Suc k]}"
    by (rule wm_run_after_connection)
qed

lemma upt_7: "[0..<7] = [0, 1, 2, 3, 4, 5, 6]"
  by code_simp

text \<open>
  The theorem at seven failures in a row, and at a failure after a connection that
  opened when \<open>backoff\<close> had reached 30.
\<close>

theorem C4_backoff_doubles_and_resets_witness:
  "waits (ps_connect_and_stream example_float
            (ps_run_event_loop_enter (ps_start (PriceStream_init 300) ''ETHUSDT'')) ''ETHUSDT''
            (replicate 7 (Connect_fails OSError, Timed_out)))
     = [1, 2, 4, 8, 16, 30, 30]
   \<and> take 1 (waits (ps_loop example_float
            (ps_run_event_loop_enter (ps_start (PriceStream_init 300) ''ETHUSDT'')) ''ETHUSDT'' 30
            [(Connected [trade ''110'' 4000] None, Timed_out), (Connect_fails OSError, Timed_out)]))
     = [1]
   \<and> waits (wm_websocket_handler example_float
            (wm_run_websocket_enter (wm_start 5 (WebSocketManager_init 0 600) ''ETHUSDT''))
            ''ethusdt'' (replicate 7 (Wm_connect_fails OSError, Timed_out)))
     = [1, 2, 4, 8, 16, 30, 30]
   \<and> take 1 (waits (wm_loop example_float
            (wm_run_websocket_enter (wm_start 5 (WebSocketManager_init 0 600) ''ETHUSDT''))
            ''ethusdt'' 30
            [(Wm_connected 10 [(11, trade ''110'' 4000)] None, Timed_out),
             (Wm_connect_fails OSError, Timed_out)]))
     = [1]"
proof -
  let ?st = "ps_run_event_loop_enter (ps_start (PriceStream_init 300) ''ETHUSDT'')"
  let ?m = "wm_run_websocket_enter (wm_start 5 (WebSocketManager_init 0 600) ''ETHUSDT'')"
  have ps: "running ?st \<and> stop_event ?st = Some False \<and> current_symbol ?st = Some ''ETHUSDT''"
    by (simp add: model_defs small_in_range)
  have wm: "u_running ?m \<and> \<not> wm_stop_is_set ?m \<and> OSError \<noteq> ConnectionClosedError"
    by (simp add: model_defs small_in_range)
  have none: "(None :: py_exc option) \<noteq> Some ConnectionClosedError"
    by simp
  have seq: "map (\<lambda>i. min (2 ^ i) 30) [0..<7] = [1, 2, 4, 8, 16, 30, (30 :: int)]"
    "map (\<lambda>i. min (2 ^ i) 30) [0..<7] = [1, 2, 4, 8, 16, 30, (30 :: real)]"
    by (simp_all add: upt_7)
  show ?thesis
    using C4_backoff_doubles_and_resets
            [where st = ?st and symb = "''ETHUSDT''" and pf = example_float and k = 7
               and e = OSError and ending = None and b = 30 and ms = "[trade ''110'' 4000]"
               and wo = Timed_out and wo' = Timed_out and rest = "[]"
               and m = ?m and e' = OSError and lsymb = "''ethusdt''" and rb = 30 and tm = 10
               and tms = "[(11, trade ''110'' 4000)]" and wending = None and wrest = "[]"]
          ps wm none
    unfolding seq by blast
qed

section \<open>A connection that outlives a symbol switch\<close>

lemma ps_switched_eval:
  "ps_switched =
     \<lparr> max_points = 300, price_data = [], current_symbol = Some ''BTCUSDT'',
       websocket = None, running = True, loop = Some Loop_open, thread = Some 1,
       connection_task = Some 1, stop_event = Some False,
       threads_started = [''ETHUSDT'', ''BTCUSDT''],
       scheduled = [Set_stop_event, Cleanup] \<rparr>"
  by (simp add: model_defs small_in_range)

lemma wm_switched_eval:
  "wm_switched =
     \<lparr> max_price_history = 600, u_price_history = [], u_current_price = Some (201 / 2),
       u_connection_state =
         \<lparr> status = ''Connecting'', symbol = Some ''btcusdt'', last_update = 9,
           error_count = 0 \<rparr>,
       u_thread = Some 1, u_loop = Some Loop_open, u_stop_event = Some False,
       u_websocket = None, u_running = True, u_message_count = 0, u_start_time = 9,
       u_threads_started = [''ethusdt'', ''btcusdt''], u_scheduled = [Set_stop_event] \<rparr>"
  by (simp add: model_defs small_in_range)

text \<open>
  Claim C5, evaluated where the code departs from it. The client streams \<open>ETHUSDT\<close>,
  the connection is open and silent, and \<open>start("BTCUSDT")\<close> is called; the cleanup that
  \<open>stop\<close> scheduled finds no transport and no task to close. A frame then arrives on
  the old connection. \<open>PriceStream\<close> does not append it and leaves the receive loop, but
  its \<open>while\<close> loop, which tests only \<open>running\<close> and the stop event, both now those of
  the new session, calls \<open>websockets.connect\<close> for \<open>ETHUSDT\<close> again and is still going
  afterwards. \<open>WebSocketManager\<close>, whose handler has no symbol check, appends the
  \<open>ETHUSDT\<close> trade to the buffer of the \<open>btcusdt\<close> session and goes on receiving.
\<close>

theorem C5_stale_connection_after_switch:
  "current_symbol ps_switched = Some ''BTCUSDT''
   \<and> snd (ps_cleanup (ps_set_stop_event (ps_start (ps_streaming ''ETHUSDT'') ''BTCUSDT'')))
       = (None, None)
   \<and> ps_receive example_float ps_switched ''ETHUSDT'' [trade ''110'' 4000]
       = (ps_switched, Break)
   \<and> connects (ps_loop example_float ps_switched ''ETHUSDT'' 1
                  [(Connected [trade ''110'' 5000] None, Timed_out)]) = 1
   \<and> \<not> ended (ps_loop example_float ps_switched ''ETHUSDT'' 1
                  [(Connected [trade ''110'' 5000] None, Timed_out)])
   \<and> symbol (u_connection_state wm_switched) = Some ''btcusdt''
   \<and> u_price_history wm_switched = []
   \<and> u_price_history (fst (wm_message_handler example_float wm_switched
                               [(10, trade ''110'' 4000)])) = [(4, 110)]
   \<and> snd (wm_message_handler example_float wm_switched [(10, trade ''110'' 4000)]) = Continue"
  by (simp add: ps_switched_eval wm_switched_eval ps_streaming_ETH ps_start_def ps_stop_def
      loop_usable_def schedule_def ps_set_stop_event_def ps_cleanup_def ps_on_message_def
      stop_is_set_def ps_attempt_def still_going_def after_connect_def wm_on_message_def
      wm_stop_is_set_def parse_trade_def trade_def example_float_def deque_append_def
      small_in_range Let_def)

section \<open>Stopping, with the background unit still alive\<close>






lemma wm_attempt_opened:
  "wm_attempt pf st symb b (Wm_connected tm ms ending)
     = (case wm_message_handler pf (wm_opened (set_status ''Connecting'' st) symb tm) ms of
          (st', Continue) \<Rightarrow> (st', 1, ending)
        | (st', v) \<Rightarrow> (st', 1, None))"
  by (simp add: wm_attempt_def wm_opened_def Let_def)




end
